theory Spec2Isabelle
  imports Complex_Main "HOL-Library.Sublist"
begin

section \<open>Python strings\<close>

text \<open>
  A Python \<^verbatim>\<open>str\<close> is a sequence of Unicode code points. The model covers the strings
  whose code points lie in U+0000..U+00FF: an Isabelle \<^typ>\<open>char\<close> is read as the code
  point \<^term>\<open>of_char c :: int\<close>. The character classes below are Python's, restricted to
  that range.
\<close>

definition code_point :: "char \<Rightarrow> int" where
  "code_point c = of_char c"

text \<open>\<^verbatim>\<open>str.isdecimal\<close> (category Nd, also what \<^verbatim>\<open>\d\<close> matches): 0-9.\<close>

definition char_isdecimal :: "char \<Rightarrow> bool" where
  "char_isdecimal c = (48 \<le> code_point c \<and> code_point c \<le> 57)"

text \<open>\<^verbatim>\<open>str.isdigit\<close>: the decimal digits and the superscript digits U+00B2, U+00B3,
  U+00B9.\<close>

definition char_isdigit :: "char \<Rightarrow> bool" where
  "char_isdigit c =
     (char_isdecimal c \<or> code_point c = 178 \<or> code_point c = 179 \<or> code_point c = 185)"

text \<open>\<^verbatim>\<open>str.isspace\<close>, which \<^verbatim>\<open>split()\<close> and \<^verbatim>\<open>strip()\<close> use: U+0009..U+000D,
  U+001C..U+0020, U+0085, U+00A0.\<close>

definition char_isspace :: "char \<Rightarrow> bool" where
  "char_isspace c =
     ((9 \<le> code_point c \<and> code_point c \<le> 13) \<or> (28 \<le> code_point c \<and> code_point c \<le> 32)
      \<or> code_point c = 133 \<or> code_point c = 160)"

definition char_isupper_ascii :: "char \<Rightarrow> bool" where
  "char_isupper_ascii c = (65 \<le> code_point c \<and> code_point c \<le> 90)"

definition char_islower_ascii :: "char \<Rightarrow> bool" where
  "char_islower_ascii c = (97 \<le> code_point c \<and> code_point c \<le> 122)"

text \<open>\<^verbatim>\<open>str.lower\<close> on one character: A-Z and U+00C0..U+00DE without U+00D7 move up by 32.\<close>

definition char_lower :: "char \<Rightarrow> char" where
  "char_lower c =
     (if char_isupper_ascii c \<or> (192 \<le> code_point c \<and> code_point c \<le> 222 \<and> code_point c \<noteq> 215)
      then char_of (code_point c + 32) else c)"

definition str_lower :: "string \<Rightarrow> string" where
  "str_lower s = map char_lower s"

text \<open>\<^verbatim>\<open>sub in s\<close> on strings.\<close>

fun str_contains :: "string \<Rightarrow> string \<Rightarrow> bool" where
  "str_contains sub [] = (sub = [])"
| "str_contains sub (c # cs) = (take (length sub) (c # cs) = sub \<or> str_contains sub cs)"

text \<open>\<^verbatim>\<open>s.strip()\<close>.\<close>

definition str_strip :: "string \<Rightarrow> string" where
  "str_strip s = rev (dropWhile char_isspace (rev (dropWhile char_isspace s)))"

text \<open>\<^verbatim>\<open>s.split()\<close>: the maximal runs of non-whitespace characters. The first argument
  is the word being read.\<close>

fun split_from :: "string \<Rightarrow> string \<Rightarrow> string list" where
  "split_from w [] = (if w = [] then [] else [w])"
| "split_from w (c # cs) =
     (if char_isspace c then (if w = [] then split_from [] cs else w # split_from [] cs)
      else split_from (w @ [c]) cs)"

definition str_split :: "string \<Rightarrow> string list" where
  "str_split s = split_from [] s"

text \<open>\<^verbatim>\<open>sep.join(parts)\<close>.\<close>

fun str_join :: "string \<Rightarrow> string list \<Rightarrow> string" where
  "str_join sep [] = []"
| "str_join sep [p] = p"
| "str_join sep (p # q # ps) = p @ sep @ str_join sep (q # ps)"

text \<open>\<^verbatim>\<open>s.isdigit()\<close> on a whole string: non-empty and every character a digit.\<close>

definition str_isdigit :: "string \<Rightarrow> bool" where
  "str_isdigit s = (s \<noteq> [] \<and> list_all char_isdigit s)"

text \<open>The value of a run of decimal digits, most significant first.\<close>

definition digits_value :: "string \<Rightarrow> int" where
  "digits_value s = foldl (\<lambda>acc c. 10 * acc + (code_point c - 48)) 0 s"

text \<open>The most digits the interpreter converts from a string to an integer, by
  default.\<close>

definition int_max_str_digits :: int where
  "int_max_str_digits = 4300"

text \<open>The exceptions the code can raise; \<open>OtherException\<close> is any other one.\<close>

datatype exn = TypeError | ValueError | IndexError | OtherException

text \<open>\<^verbatim>\<open>int(s)\<close> on a string of decimal digits: a \<^verbatim>\<open>ValueError\<close> when it has more
  digits than the limit.\<close>

definition int_of_digits :: "string \<Rightarrow> exn + int" where
  "int_of_digits s =
     (if int (length s) > int_max_str_digits then Inl ValueError else Inr (digits_value s))"

section \<open>Directory lookup client: phone normalisation\<close>

text \<open>\<^verbatim>\<open>PharmacyAPI._clean_phone_number\<close>:
  \<^verbatim>\<open>return "".join(filter(str.isdigit, phone))\<close>. Iterating a string yields its
  one-character strings.\<close>

definition clean_phone_number :: "string \<Rightarrow> string" where
  "clean_phone_number phone = str_join [] (filter str_isdigit (map (\<lambda>c. [c]) phone))"


section \<open>Values\<close>

text \<open>
  The values the engine stores are what \<^verbatim>\<open>json.loads\<close> and the manual tier produce.
  A Python float is a rational or one of the three special values, which
  \<^verbatim>\<open>json.loads\<close> accepts.
\<close>

datatype pyfloat = Finite rat | PosInf | NegInf | NaN

datatype json =
    JNull
  | JBool bool
  | JInt int
  | JFloat pyfloat
  | JStr string
  | JList "json list"
  | JObj "(string \<times> json) list"

text \<open>Python truthiness, as \<^verbatim>\<open>if v:\<close> and \<^verbatim>\<open>a and b\<close> test it.\<close>

fun truthy :: "json \<Rightarrow> bool" where
  "truthy JNull = False"
| "truthy (JBool b) = b"
| "truthy (JInt i) = (i \<noteq> 0)"
| "truthy (JFloat f) = (f \<noteq> Finite 0)"
| "truthy (JStr s) = (s \<noteq> [])"
| "truthy (JList xs) = (xs \<noteq> [])"
| "truthy (JObj kvs) = (kvs \<noteq> [])"

text \<open>\<^verbatim>\<open>isinstance(v, (int, float))\<close>; \<^verbatim>\<open>bool\<close> is a subclass of \<^verbatim>\<open>int\<close>.\<close>

fun is_number :: "json \<Rightarrow> bool" where
  "is_number (JBool b) = True"
| "is_number (JInt i) = True"
| "is_number (JFloat f) = True"
| "is_number v = False"

text \<open>\<^verbatim>\<open>v >= n\<close> for an integer literal \<^verbatim>\<open>n\<close>: a \<^verbatim>\<open>TypeError\<close> unless \<^verbatim>\<open>v\<close> is a
  number; every comparison with NaN is false.\<close>

fun ge_int :: "json \<Rightarrow> int \<Rightarrow> exn + bool" where
  "ge_int (JBool b) n = Inr ((if b then 1 else 0) \<ge> n)"
| "ge_int (JInt i) n = Inr (i \<ge> n)"
| "ge_int (JFloat (Finite q)) n = Inr (q \<ge> of_int n)"
| "ge_int (JFloat PosInf) n = Inr True"
| "ge_int (JFloat NegInf) n = Inr False"
| "ge_int (JFloat NaN) n = Inr False"
| "ge_int v n = Inl TypeError"

text \<open>\<^verbatim>\<open>v <= 0\<close> on a number.\<close>

fun le_zero :: "json \<Rightarrow> bool" where
  "le_zero (JBool b) = (\<not> b)"
| "le_zero (JInt i) = (i \<le> 0)"
| "le_zero (JFloat (Finite q)) = (q \<le> 0)"
| "le_zero (JFloat NegInf) = True"
| "le_zero v = False"

section \<open>Templates\<close>

text \<open>
  The reply strings of \<^verbatim>\<open>prompt.py\<close> and the literals of \<^verbatim>\<open>llm.py\<close>, one
  constructor for each template, with the values formatted into it. \<open>Text\<close> is a string
  that is no template: a user message or the language model's reply. \<open>PyNone\<close> is
  Python's \<^verbatim>\<open>None\<close>, the one value here that is no string.
\<close>

datatype reply =
    EXISTING_CUSTOMER_GREETING json json json
  | NEW_LEAD_GREETING string
  | API_ERROR_MESSAGE
  | TECHNICAL_DIFFICULTIES
  | COLLECTING_INFO_QUESTION string
  | COULD_YOU_PROVIDE
  | BENEFITS_HIGH_VOLUME
  | BENEFITS_MEDIUM_VOLUME
  | BENEFITS_LOW_VOLUME
  | FOLLOW_UP_OPTIONS
  | HAPPY_TO_HELP_GET_STARTED
  | SUCCESSFUL_CLOSING string string json
  | WHATS_YOUR_EMAIL
  | CALLBACK_OFFER
  | EMAIL_OR_CALL
  | GENERAL_CLOSING
  | ANYTHING_ELSE
  | BACK_ONLINE
  | HERE_TO_HELP
  | FALLBACK_MODE
  | TROUBLE_GENERATING
  | CALL_STARTED string
  | Text string
  | PyNone

definition is_str :: "reply \<Rightarrow> bool" where
  "is_str r = (r \<noteq> PyNone)"

datatype ConversationState =
    GREETING
  | COLLECTING_INFO
  | DISCUSSING_SOLUTIONS
  | OFFERING_FOLLOW_UP
  | SCHEDULING
  | CLOSING
  | ERROR

definition required_fields :: "string list" where
  "required_fields = [''pharmacy_name'', ''location'', ''rx_volume'', ''contact_person'', ''email'']"

text \<open>\<^verbatim>\<open>ResponseTemplates.get_collecting_info_response\<close>: \<^verbatim>\<open>responses.get(field, default)\<close>.\<close>

definition get_collecting_info_response :: "string \<Rightarrow> reply" where
  "get_collecting_info_response field =
     (if field \<in> set required_fields then COLLECTING_INFO_QUESTION field else COULD_YOU_PROVIDE)"

text \<open>\<^verbatim>\<open>ResponseTemplates.get_solution_benefits\<close>.\<close>

definition get_solution_benefits :: "json \<Rightarrow> exn + reply" where
  "get_solution_benefits rx =
     (case ge_int rx 1000 of
        Inl e \<Rightarrow> Inl e
      | Inr True \<Rightarrow> Inr BENEFITS_HIGH_VOLUME
      | Inr False \<Rightarrow>
          (case ge_int rx 500 of
             Inl e \<Rightarrow> Inl e
           | Inr True \<Rightarrow> Inr BENEFITS_MEDIUM_VOLUME
           | Inr False \<Rightarrow> Inr BENEFITS_LOW_VOLUME))"

section \<open>Engine state\<close>

text \<open>\<^verbatim>\<open>PharmacyData\<close>; the dataclass does not enforce its annotations, so a field holds
  whatever value it was given (\<open>JNull\<close> for \<^verbatim>\<open>None\<close>).\<close>

record PharmacyData =
  pharmacy_id :: json
  name :: json
  phone :: json
  location :: json
  rx_volume :: json
  contact_person :: json
  email :: json
  pharmacy_notes :: json

text \<open>The entries of \<^verbatim>\<open>FollowUpActions.sent_emails\<close> and \<^verbatim>\<open>scheduled_callbacks\<close>,
  without the subject, body, notes and timestamp texts.\<close>

record email_data =
  email_id :: nat
  to_email :: json
  email_pharmacy_name :: json
  email_contact_person :: json

record callback_data =
  callback_id :: nat
  phone_number :: json
  preferred_time :: string
  callback_pharmacy_name :: json
  callback_contact_person :: json

datatype role = System | User | Assistant

text \<open>The requests sent to the language model by \<^verbatim>\<open>client.chat.completions.create\<close>:
  a single-field extraction (field, message) or a reply generation (the transcript
  window, message).\<close>

datatype llm_request =
    ExtractionRequest string string
  | GenerationRequest "(role \<times> reply) list" string

text \<open>
  \<^verbatim>\<open>PharmacyChatbot\<close>, with its \<^verbatim>\<open>FollowUpActions\<close> logs and the log of requests its
  client has sent.
\<close>

record engine =
  ai_available :: bool
  ai_extraction_failures :: nat
  current_state :: ConversationState
  conversation_history :: "(role \<times> reply) list"
  pharmacy_data :: "PharmacyData option"
  collected_info :: "string \<rightharpoonup> json"
  current_info_field :: nat
  sent_emails :: "email_data list"
  scheduled_callbacks :: "callback_data list"
  client_requests :: "llm_request list"

definition info_collection_fields :: "string list" where
  "info_collection_fields = [''pharmacy_name'', ''location'', ''rx_volume'', ''contact_person'', ''email'']"

text \<open>\<^verbatim>\<open>__init__\<close>; the argument says whether the connection test succeeded.\<close>

definition init_engine :: "bool \<Rightarrow> engine" where
  "init_engine ai =
     \<lparr> ai_available = ai, ai_extraction_failures = 0, current_state = GREETING,
       conversation_history = [], pharmacy_data = None, collected_info = Map.empty,
       current_info_field = 0, sent_emails = [], scheduled_callbacks = [],
       client_requests = [] \<rparr>"

text \<open>The answer to a generation request: the request raises, or the answer's
  \<^verbatim>\<open>message.content\<close> is a string or \<^verbatim>\<open>None\<close>.\<close>

datatype completion = RequestRaises | Content "string option"

text \<open>What the environment answers during one message: the value \<^verbatim>\<open>json.loads\<close>
  returns for the extraction request (\<open>None\<close> when the request raises, the content is
  \<^verbatim>\<open>None\<close> or empty or is not JSON), and the answer to the generation request.\<close>

record llm =
  extraction :: "json option"
  generation :: completion

text \<open>What \<^verbatim>\<open>get_pharmacy_by_phone\<close> does for \<^verbatim>\<open>start_call\<close>.\<close>

datatype lookup = Found PharmacyData | NotFound | LookupRaises exn

section \<open>Starting a call\<close>

text \<open>\<^verbatim>\<open>PromptTemplates.format_greeting\<close>.\<close>

definition format_greeting :: "PharmacyData option \<Rightarrow> reply" where
  "format_greeting pd =
     (case pd of
        Some d \<Rightarrow> EXISTING_CUSTOMER_GREETING (name d) (location d) (rx_volume d)
      | None \<Rightarrow> NEW_LEAD_GREETING ''Alex'')"

definition start_call :: "engine \<Rightarrow> string \<Rightarrow> lookup \<Rightarrow> engine \<times> reply" where
  "start_call eng phone_no lk =
     (case lk of
        LookupRaises e \<Rightarrow> (eng\<lparr>current_state := ERROR\<rparr>, API_ERROR_MESSAGE)
      | Found d \<Rightarrow>
          (let greeting = format_greeting (Some d) in
           (eng\<lparr>pharmacy_data := Some d, current_state := DISCUSSING_SOLUTIONS,
                conversation_history := conversation_history eng
                   @ [(System, CALL_STARTED phone_no), (Assistant, greeting)]\<rparr>, greeting))
      | NotFound \<Rightarrow>
          (let greeting = format_greeting None in
           (eng\<lparr>pharmacy_data := None, current_state := COLLECTING_INFO,
                current_info_field := 0,
                conversation_history := conversation_history eng
                   @ [(System, CALL_STARTED phone_no), (Assistant, greeting)]\<rparr>, greeting)))"


section \<open>Manual tier: the extraction rules\<close>

text \<open>The \<^verbatim>\<open>for i, word in enumerate(words)\<close> iterations: the first word that satisfies the
  test, joined to the word before it when there is one. The second argument is the
  previous word.\<close>

fun keyword_word :: "(string \<Rightarrow> bool) \<Rightarrow> string option \<Rightarrow> string list \<Rightarrow> string option" where
  "keyword_word P prev [] = None"
| "keyword_word P prev (w # ws) =
     (if P w then Some (case prev of None \<Rightarrow> w | Some p \<Rightarrow> p @ '' '' @ w)
      else keyword_word P (Some w) ws)"

definition health_keywords :: "string list" where
  "health_keywords =
     [''natural'', ''health'', ''care'', ''medical'', ''wellness'', ''supplements'', ''products'']"

definition extract_pharmacy_name :: "string \<Rightarrow> string option" where
  "extract_pharmacy_name user_message =
     (case (if str_contains ''pharmacy'' (str_lower user_message)
            then keyword_word (\<lambda>w. str_contains ''pharmacy'' (str_lower w)) None
                   (str_split user_message)
            else None) of
        Some v \<Rightarrow> Some v
      | None \<Rightarrow>
          (let words = str_split user_message in
           if length words \<le> 3 then Some (str_strip user_message)
           else if list_ex (\<lambda>w. str_lower w \<in> set health_keywords) words
           then Some (str_strip user_message)
           else None))"

definition location_keywords :: "string list" where
  "location_keywords = [''city'', ''town'', ''street'', ''avenue'', ''road'']"

definition extract_location :: "string \<Rightarrow> string option" where
  "extract_location user_message =
     (let words = str_split user_message in
      if length words \<le> 3 then Some (str_strip user_message)
      else if list_ex (\<lambda>city. str_contains city (str_lower user_message)) location_keywords
      then keyword_word
             (\<lambda>w. list_ex (\<lambda>city. str_contains city (str_lower w)) location_keywords) None words
      else None)"

text \<open>\<^verbatim>\<open>re.findall(r"\d+", s)\<close>: the maximal runs of decimal digits. The first argument
  is the run being read.\<close>

fun digit_runs :: "string \<Rightarrow> string \<Rightarrow> string list" where
  "digit_runs r [] = (if r = [] then [] else [r])"
| "digit_runs r (c # cs) =
     (if char_isdecimal c then digit_runs (r @ [c]) cs
      else (if r = [] then digit_runs [] cs else r # digit_runs [] cs))"

text \<open>\<^verbatim>\<open>int(numbers[0])\<close> when there is a match; the conversion raises on a run that
  is too long.\<close>

definition extract_rx_volume :: "string \<Rightarrow> exn + int option" where
  "extract_rx_volume user_message =
     (case digit_runs [] user_message of
        [] \<Rightarrow> Inr None
      | n # _ \<Rightarrow> (case int_of_digits n of Inl e \<Rightarrow> Inl e | Inr i \<Rightarrow> Inr (Some i)))"

definition title_keywords :: "string list" where
  "title_keywords = [''manager'', ''owner'', ''director'', ''pharmacist'']"

definition extract_contact_person :: "string \<Rightarrow> string option" where
  "extract_contact_person user_message =
     (let words = str_split user_message in
      if length words \<le> 3 then Some (str_strip user_message)
      else if list_ex (\<lambda>title. str_contains title (str_lower user_message)) title_keywords
      then keyword_word
             (\<lambda>w. list_ex (\<lambda>title. str_contains title (str_lower w)) title_keywords) None words
      else None)"

subsection \<open>The e-mail pattern\<close>

text \<open>
  \<^verbatim>\<open>\b[A-Za-z0-9._%+-]+@[A-Za-z0-9.-]+\.[A-Z|a-z]{2,}\b\<close>, matched as the backtracking
  matcher does: the leftmost start, then each greedy repetition as long as possible.
  \<^verbatim>\<open>\w\<close> is an alphanumeric character or the underscore.
\<close>

definition char_isword :: "char \<Rightarrow> bool" where
  "char_isword c =
     (char_isdecimal c \<or> char_isupper_ascii c \<or> char_islower_ascii c \<or> code_point c = 95
      \<or> code_point c \<in> {170, 178, 179, 181, 185, 186}
      \<or> (188 \<le> code_point c \<and> code_point c \<le> 190)
      \<or> (192 \<le> code_point c \<and> code_point c \<noteq> 215 \<and> code_point c \<noteq> 247))"

definition word_boundary :: "char option \<Rightarrow> char option \<Rightarrow> bool" where
  "word_boundary a b =
     ((case a of None \<Rightarrow> False | Some c \<Rightarrow> char_isword c)
        \<noteq> (case b of None \<Rightarrow> False | Some c \<Rightarrow> char_isword c))"

definition ascii_alnum :: "char \<Rightarrow> bool" where
  "ascii_alnum c = (char_isdecimal c \<or> char_isupper_ascii c \<or> char_islower_ascii c)"

definition local_char :: "char \<Rightarrow> bool" where
  "local_char c = (ascii_alnum c \<or> c \<in> set ''._%+-'')"

definition domain_char :: "char \<Rightarrow> bool" where
  "domain_char c = (ascii_alnum c \<or> c \<in> set ''.-'')"

definition tld_char :: "char \<Rightarrow> bool" where
  "tld_char c = (char_isupper_ascii c \<or> char_islower_ascii c \<or> c = CHR ''|'')"

definition nth_opt :: "'a list \<Rightarrow> nat \<Rightarrow> 'a option" where
  "nth_opt xs i = (if i < length xs then Some (xs ! i) else None)"

text \<open>\<^verbatim>\<open>[A-Z|a-z]{2,}\b\<close> on the text after the dot, trying \<open>j\<close> characters, then fewer.\<close>

fun match_tld :: "string \<Rightarrow> nat \<Rightarrow> nat option" where
  "match_tld u 0 = None"
| "match_tld u (Suc j) =
     (if 2 \<le> Suc j \<and> word_boundary (nth_opt u j) (nth_opt u (Suc j)) then Some (Suc j)
      else match_tld u j)"

text \<open>\<^verbatim>\<open>[A-Za-z0-9.-]+\.\<close> and the rest on the text after the at sign, trying \<open>k\<close>
  characters for the repetition, then fewer. The result is the length matched.\<close>

fun match_domain :: "string \<Rightarrow> nat \<Rightarrow> nat option" where
  "match_domain v 0 = None"
| "match_domain v (Suc k) =
     (if nth_opt v (Suc k) = Some CHR ''.''
      then (case match_tld (drop (Suc k + 1) v)
                   (length (takeWhile tld_char (drop (Suc k + 1) v))) of
              Some j \<Rightarrow> Some (Suc k + 1 + j)
            | None \<Rightarrow> match_domain v k)
      else match_domain v k)"

text \<open>A match that starts at the head of \<open>s\<close>, after the character \<open>prev\<close>.\<close>

definition match_email_at :: "char option \<Rightarrow> string \<Rightarrow> nat option" where
  "match_email_at prev s =
     (let l = length (takeWhile local_char s) in
      if l = 0 then None
      else if \<not> word_boundary prev (nth_opt s 0) then None
      else if nth_opt s l = Some CHR ''@''
      then (case match_domain (drop (l + 1) s)
                   (length (takeWhile domain_char (drop (l + 1) s))) of
              Some n \<Rightarrow> Some (l + 1 + n)
            | None \<Rightarrow> None)
      else None)"

text \<open>The first element of \<^verbatim>\<open>re.findall(email_pattern, s)\<close>, when there is one.\<close>

fun email_search :: "char option \<Rightarrow> string \<Rightarrow> string option" where
  "email_search prev [] = None"
| "email_search prev (c # cs) =
     (case match_email_at prev (c # cs) of
        Some n \<Rightarrow> Some (take n (c # cs))
      | None \<Rightarrow> email_search (Some c) cs)"

definition extract_email :: "string \<Rightarrow> string option" where
  "extract_email user_message = email_search None user_message"

text \<open>The chain \<^verbatim>\<open>if field == "pharmacy_name": ... elif ...\<close> of the manual tier:
  the value it stores under \<open>field\<close>, or \<open>None\<close> when \<^verbatim>\<open>info_extracted\<close> stays False,
  or the exception it raises before anything is stored.\<close>

definition manual_extract :: "string \<Rightarrow> string \<Rightarrow> exn + json option" where
  "manual_extract field user_message =
     (if field = ''pharmacy_name''
      then Inr (map_option JStr (extract_pharmacy_name user_message))
      else if field = ''location'' then Inr (map_option JStr (extract_location user_message))
      else if field = ''rx_volume''
      then (case extract_rx_volume user_message of
              Inl e \<Rightarrow> Inl e
            | Inr v \<Rightarrow> Inr (map_option JInt v))
      else if field = ''contact_person''
      then Inr (map_option JStr (extract_contact_person user_message))
      else if field = ''email'' then Inr (map_option JStr (extract_email user_message))
      else Inr None)"


section \<open>Information collection\<close>

text \<open>\<^verbatim>\<open>self.collected_info.get(key, default)\<close>.\<close>

definition info_get :: "engine \<Rightarrow> string \<Rightarrow> json \<Rightarrow> json" where
  "info_get eng k d = (case collected_info eng k of None \<Rightarrow> d | Some v \<Rightarrow> v)"

text \<open>\<^verbatim>\<open>field in self.collected_info and self.collected_info[field]\<close>.\<close>

definition field_filled :: "(string \<rightharpoonup> json) \<Rightarrow> string \<Rightarrow> bool" where
  "field_filled info field = (case info field of None \<Rightarrow> False | Some v \<Rightarrow> truthy v)"

definition has_complete_info :: "engine \<Rightarrow> bool" where
  "has_complete_info eng = list_all (field_filled (collected_info eng)) required_fields"

definition get_next_missing_field :: "engine \<Rightarrow> string" where
  "get_next_missing_field eng =
     (case filter (\<lambda>field. \<not> field_filled (collected_info eng) field) required_fields of
        [] \<Rightarrow> ''pharmacy_name''
      | field # _ \<Rightarrow> field)"

text \<open>
  \<^verbatim>\<open>_handle_manual_info_collection\<close>. The result is the engine as the call leaves it and
  either the reply or the exception the call raises: \<^verbatim>\<open>ValueError\<close> from the
  conversion of the digit run, \<^verbatim>\<open>TypeError\<close> from the benefits template,
  \<^verbatim>\<open>IndexError\<close> from \<^verbatim>\<open>self.info_collection_fields[self.current_info_field]\<close> when
  the cursor has just passed the last field.
\<close>

definition handle_manual_info_collection :: "engine \<Rightarrow> string \<Rightarrow> engine \<times> (exn + reply)" where
  "handle_manual_info_collection eng user_message =
     (if current_info_field eng \<ge> length info_collection_fields
      then (let eng1 = eng\<lparr>current_state := DISCUSSING_SOLUTIONS\<rparr> in
            (eng1, get_solution_benefits (info_get eng1 ''rx_volume'' (JInt 0))))
      else
        (let field = info_collection_fields ! current_info_field eng in
         case manual_extract field user_message of
           Inl e \<Rightarrow> (eng, Inl e)
         | Inr extracted \<Rightarrow>
             (let eng1 = (case extracted of
                            None \<Rightarrow> eng
                          | Some v \<Rightarrow>
                              eng\<lparr>collected_info := (collected_info eng)(field \<mapsto> v),
                                  current_info_field := current_info_field eng + 1\<rparr>)
              in if has_complete_info eng1
                 then (let eng2 = eng1\<lparr>current_state := DISCUSSING_SOLUTIONS\<rparr> in
                       (eng2, get_solution_benefits (info_get eng2 ''rx_volume'' (JInt 0))))
                 else (case extracted of
                         Some v \<Rightarrow>
                           (if current_info_field eng1 < length info_collection_fields
                            then (eng1, Inr (get_collecting_info_response
                                               (info_collection_fields
                                                  ! current_info_field eng1)))
                            else (eng1, Inl IndexError))
                       | None \<Rightarrow> (eng1, Inr (get_collecting_info_response field))))))"

text \<open>The dictionary \<^verbatim>\<open>json.loads\<close> builds from an object: for a repeated key the last
  value.\<close>

fun dict_items :: "(string \<times> json) list \<Rightarrow> (string \<times> json) list" where
  "dict_items [] = []"
| "dict_items ((k, v) # kvs) =
     (if k \<in> fst ` set kvs then dict_items kvs else (k, v) # dict_items kvs)"

text \<open>
  The end of \<^verbatim>\<open>_extract_pharmacy_info_for_field\<close>, from the value \<^verbatim>\<open>json.loads\<close>
  returned: \<^verbatim>\<open>{k: v for k, v in result.items() if v is not None}\<close> when it is an
  object, and \<^verbatim>\<open>{}\<close> on every failure (a decoded value that is no object has no
  \<^verbatim>\<open>items\<close>, and that exception is caught too).
\<close>

definition parse_extraction :: "json option \<Rightarrow> (string \<times> json) list" where
  "parse_extraction decoded =
     (case decoded of
        Some (JObj kvs) \<Rightarrow> filter (\<lambda>(k, v). v \<noteq> JNull) (dict_items kvs)
      | _ \<Rightarrow> [])"

text \<open>\<^verbatim>\<open>_extract_pharmacy_info_for_field\<close>: without the AI nothing is sent; otherwise the
  request is sent and its answer parsed.\<close>

definition extract_pharmacy_info_for_field ::
  "engine \<Rightarrow> string \<Rightarrow> string \<Rightarrow> llm \<Rightarrow> engine \<times> (string \<times> json) list" where
  "extract_pharmacy_info_for_field eng user_message field env =
     (if \<not> ai_available eng then (eng, [])
      else (eng\<lparr>client_requests :=
                   client_requests eng @ [ExtractionRequest field user_message]\<rparr>,
            parse_extraction (extraction env)))"

text \<open>
  The check of an extracted \<^verbatim>\<open>rx_volume\<close>: a string of digits is replaced by
  \<^verbatim>\<open>int(value)\<close>, which raises \<^verbatim>\<open>ValueError\<close> on a digit that is not decimal and on
  a string that is too long; the
  extraction is valid when the value is a number above zero. The result is the dictionary
  and \<^verbatim>\<open>valid_extraction\<close>.
\<close>

definition check_rx_volume ::
  "(string \<times> json) list \<Rightarrow> json \<Rightarrow> exn + ((string \<times> json) list \<times> bool)" where
  "check_rx_volume extracted_info v =
     (case v of
        JStr s \<Rightarrow>
          (if str_isdigit s
           then (if list_all char_isdecimal s
                 then (case int_of_digits s of
                         Inl e \<Rightarrow> Inl e
                       | Inr i \<Rightarrow> Inr ((''rx_volume'', JInt i) # extracted_info, \<not> i \<le> 0))
                 else Inl ValueError)
           else Inr (extracted_info, False))
      | _ \<Rightarrow> Inr (extracted_info, \<not> (\<not> is_number v \<or> le_zero v)))"

text \<open>
  The body of the \<^verbatim>\<open>try\<close> of \<^verbatim>\<open>_handle_info_collection\<close> down to its last line:
  \<open>Inr (Some r)\<close> when the AI tier returns the reply \<open>r\<close>, \<open>Inr None\<close> when control
  reaches the fallback line, \<open>Inl e\<close> when the body raises.
\<close>

definition ai_tier :: "engine \<Rightarrow> string \<Rightarrow> llm \<Rightarrow> engine \<times> (exn + reply option)" where
  "ai_tier eng user_message env =
     (let current_field = get_next_missing_field eng in
      if ai_available eng \<and> ai_extraction_failures eng < 3
      then
        (case extract_pharmacy_info_for_field eng user_message current_field env of
           (eng1, extracted_info) \<Rightarrow>
             (if extracted_info \<noteq> []
                 \<and> (case map_of extracted_info current_field of
                       None \<Rightarrow> False | Some v \<Rightarrow> truthy v)
              then
                (case (if current_field = ''rx_volume''
                       then check_rx_volume extracted_info
                              (the (map_of extracted_info current_field))
                       else Inr (extracted_info, True)) of
                   Inl e \<Rightarrow> (eng1, Inl e)
                 | Inr (extracted_info', valid_extraction) \<Rightarrow>
                     (if valid_extraction
                      then
                        (let eng2 = eng1\<lparr>collected_info :=
                                           collected_info eng1 ++ map_of extracted_info'\<rparr> in
                         if has_complete_info eng2
                         then
                           (let eng3 = eng2\<lparr>current_state := DISCUSSING_SOLUTIONS\<rparr> in
                            case get_solution_benefits (info_get eng3 ''rx_volume'' (JInt 0)) of
                              Inl e \<Rightarrow> (eng3, Inl e)
                            | Inr r \<Rightarrow> (eng3, Inr (Some r)))
                         else (eng2, Inr (Some (get_collecting_info_response
                                                  (get_next_missing_field eng2)))))
                      else (eng1\<lparr>ai_extraction_failures := ai_extraction_failures eng1 + 1\<rparr>,
                            Inr None)))
              else (eng1\<lparr>ai_extraction_failures := ai_extraction_failures eng1 + 1\<rparr>,
                    Inr None)))
      else (eng, Inr None))"

text \<open>
  \<^verbatim>\<open>_handle_info_collection\<close>: the fallback line is inside the \<^verbatim>\<open>try\<close>, so an
  exception of the manual tier called there is caught and the manual tier runs a second
  time; an exception of the call in the \<^verbatim>\<open>except\<close> branch is not caught.
\<close>

definition handle_info_collection :: "engine \<Rightarrow> string \<Rightarrow> llm \<Rightarrow> engine \<times> (exn + reply)" where
  "handle_info_collection eng user_message env =
     (case ai_tier eng user_message env of
        (eng1, Inr (Some r)) \<Rightarrow> (eng1, Inr r)
      | (eng1, Inr None) \<Rightarrow>
          (case handle_manual_info_collection eng1 user_message of
             (eng2, Inl e) \<Rightarrow> handle_manual_info_collection eng2 user_message
           | (eng2, Inr r) \<Rightarrow> (eng2, Inr r))
      | (eng1, Inl e) \<Rightarrow> handle_manual_info_collection eng1 user_message)"

section \<open>The other handlers\<close>

text \<open>\<^verbatim>\<open>_generate_ai_response\<close>: the request carries the last ten transcript entries; a
  failure of the request is caught and answered with a fixed string; otherwise
  \<^verbatim>\<open>response.choices[0].message.content\<close> is returned as it is.\<close>

definition generate_ai_response :: "engine \<Rightarrow> string \<Rightarrow> llm \<Rightarrow> engine \<times> reply" where
  "generate_ai_response eng user_message env =
     (if \<not> ai_available eng then (eng, FALLBACK_MODE)
      else
        (let window = drop (length (conversation_history eng) - 10) (conversation_history eng);
             eng1 = eng\<lparr>client_requests :=
                          client_requests eng @ [GenerationRequest window user_message]\<rparr> in
         case generation env of
           Content (Some content) \<Rightarrow> (eng1, Text content)
         | Content None \<Rightarrow> (eng1, PyNone)
         | RequestRaises \<Rightarrow> (eng1, TROUBLE_GENERATING)))"

definition interest_keywords :: "string list" where
  "interest_keywords = [''yes'', ''interested'', ''more'', ''information'', ''details'']"

definition handle_solution_discussion :: "engine \<Rightarrow> string \<Rightarrow> llm \<Rightarrow> engine \<times> reply" where
  "handle_solution_discussion eng user_message env =
     (if list_ex (\<lambda>keyword. str_contains keyword (str_lower user_message)) interest_keywords
      then (eng\<lparr>current_state := OFFERING_FOLLOW_UP\<rparr>, FOLLOW_UP_OPTIONS)
      else if ai_available eng then generate_ai_response eng user_message env
      else (eng, HAPPY_TO_HELP_GET_STARTED))"

definition get_email_address :: "engine \<Rightarrow> json option" where
  "get_email_address eng =
     (if truthy (info_get eng ''email'' JNull) then Some (info_get eng ''email'' JNull)
      else (case pharmacy_data eng of
              Some d \<Rightarrow> (if truthy (email d) then Some (email d) else None)
            | None \<Rightarrow> None))"

definition get_pharmacy_name :: "engine \<Rightarrow> json" where
  "get_pharmacy_name eng =
     (if truthy (info_get eng ''pharmacy_name'' JNull) then info_get eng ''pharmacy_name'' JNull
      else (case pharmacy_data eng of
              Some d \<Rightarrow> name d
            | None \<Rightarrow> JStr ''your pharmacy''))"

text \<open>\<^verbatim>\<open>FollowUpActions.send_email\<close> on a request with these three fields: the record is
  appended with the next identifier.\<close>

definition send_email :: "engine \<Rightarrow> json \<Rightarrow> json \<Rightarrow> json \<Rightarrow> engine" where
  "send_email eng to_addr pharmacy contact =
     eng\<lparr>sent_emails := sent_emails eng
            @ [\<lparr>email_id = length (sent_emails eng) + 1, to_email = to_addr,
                email_pharmacy_name = pharmacy, email_contact_person = contact\<rparr>]\<rparr>"

text \<open>\<^verbatim>\<open>FollowUpActions.send_welcome_email\<close>.\<close>

definition send_welcome_email :: "engine \<Rightarrow> PharmacyData \<Rightarrow> engine" where
  "send_welcome_email eng d =
     send_email eng (if truthy (email d) then email d else JStr ''contact@pharmacy.com'')
       (name d) (contact_person d)"

text \<open>\<^verbatim>\<open>FollowUpActions.schedule_callback\<close> and \<^verbatim>\<open>schedule_consultation\<close>.\<close>

definition schedule_callback :: "engine \<Rightarrow> json \<Rightarrow> string \<Rightarrow> json \<Rightarrow> json \<Rightarrow> engine" where
  "schedule_callback eng phone_no time pharmacy contact =
     eng\<lparr>scheduled_callbacks := scheduled_callbacks eng
            @ [\<lparr>callback_id = length (scheduled_callbacks eng) + 1, phone_number = phone_no,
                preferred_time = time, callback_pharmacy_name = pharmacy,
                callback_contact_person = contact\<rparr>]\<rparr>"

definition schedule_consultation :: "engine \<Rightarrow> PharmacyData \<Rightarrow> string \<Rightarrow> engine" where
  "schedule_consultation eng d time =
     schedule_callback eng (phone d) time (name d) (contact_person d)"

definition handle_follow_up_offer :: "engine \<Rightarrow> string \<Rightarrow> engine \<times> reply" where
  "handle_follow_up_offer eng user_message =
     (if str_contains ''email'' (str_lower user_message)
      then
        (case get_email_address eng of
           Some addr \<Rightarrow>
             (if truthy addr
              then
                (let pharmacy_name = get_pharmacy_name eng;
                     eng1 = send_welcome_email eng
                              \<lparr>pharmacy_id = JStr ''new'', name = pharmacy_name, phone = JStr [],
                               location = JStr [],
                               rx_volume = info_get eng ''rx_volume'' (JInt 0),
                               contact_person = info_get eng ''contact_person'' (JStr []),
                               email = addr, pharmacy_notes = JNull\<rparr>
                 in (eng1\<lparr>current_state := CLOSING\<rparr>,
                     SUCCESSFUL_CLOSING ''sent you detailed information via email''
                       ''receive the email within the next few minutes'' pharmacy_name))
              else (eng, WHATS_YOUR_EMAIL))
         | None \<Rightarrow> (eng, WHATS_YOUR_EMAIL))
      else if str_contains ''call'' (str_lower user_message)
              \<or> str_contains ''consultation'' (str_lower user_message)
      then (eng\<lparr>current_state := SCHEDULING\<rparr>, CALLBACK_OFFER)
      else (eng, EMAIL_OR_CALL))"

definition time_keywords :: "string list" where
  "time_keywords =
     [''tomorrow'', ''next week'', ''monday'', ''tuesday'', ''wednesday'', ''thursday'',
      ''friday'', ''morning'', ''afternoon'', ''evening'']"

definition handle_scheduling :: "engine \<Rightarrow> string \<Rightarrow> engine \<times> reply" where
  "handle_scheduling eng user_message =
     (let time = (case filter (\<lambda>keyword. str_contains keyword (str_lower user_message))
                         time_keywords of
                    [] \<Rightarrow> ''tomorrow at 2 PM''
                  | keyword # _ \<Rightarrow> keyword @ '' at 2 PM'');
          pharmacy_name = get_pharmacy_name eng;
          phone_no = (case pharmacy_data eng of Some d \<Rightarrow> phone d | None \<Rightarrow> JStr []);
          eng1 = schedule_consultation eng
                   \<lparr>pharmacy_id = JStr ''new'', name = pharmacy_name, phone = phone_no,
                    location = JStr [],
                    rx_volume = info_get eng ''rx_volume'' (JInt 0),
                    contact_person = info_get eng ''contact_person'' (JStr []),
                    email = JStr [], pharmacy_notes = JNull\<rparr> time
      in (eng1\<lparr>current_state := CLOSING\<rparr>,
          SUCCESSFUL_CLOSING ''scheduled a consultation call for you''
            ''receive a confirmation email with the details'' pharmacy_name))"

definition closing_keywords :: "string list" where
  "closing_keywords = [''no'', ''nothing'', ''goodbye'', ''bye'', ''thanks'']"

definition handle_closing :: "engine \<Rightarrow> string \<Rightarrow> engine \<times> reply" where
  "handle_closing eng user_message =
     (if list_ex (\<lambda>keyword. str_contains keyword (str_lower user_message)) closing_keywords
      then (eng, GENERAL_CLOSING)
      else (eng, ANYTHING_ELSE))"

definition handle_error_recovery :: "engine \<Rightarrow> string \<Rightarrow> engine \<times> reply" where
  "handle_error_recovery eng user_message =
     (eng\<lparr>ai_available := False, current_state := COLLECTING_INFO\<rparr>, BACK_ONLINE)"

section \<open>Processing a message\<close>

text \<open>The handler \<^verbatim>\<open>process_message\<close> routes to, with what it returns or raises.\<close>

definition route :: "engine \<Rightarrow> string \<Rightarrow> llm \<Rightarrow> engine \<times> (exn + reply)" where
  "route eng user_message env =
     (case current_state eng of
        COLLECTING_INFO \<Rightarrow> handle_info_collection eng user_message env
      | DISCUSSING_SOLUTIONS \<Rightarrow> map_prod id Inr (handle_solution_discussion eng user_message env)
      | OFFERING_FOLLOW_UP \<Rightarrow> map_prod id Inr (handle_follow_up_offer eng user_message)
      | SCHEDULING \<Rightarrow> map_prod id Inr (handle_scheduling eng user_message)
      | CLOSING \<Rightarrow> map_prod id Inr (handle_closing eng user_message)
      | ERROR \<Rightarrow> map_prod id Inr (handle_error_recovery eng user_message)
      | GREETING \<Rightarrow>
          (if ai_available eng then map_prod id Inr (generate_ai_response eng user_message env)
           else (eng, Inr HERE_TO_HELP)))"

text \<open>
  \<^verbatim>\<open>process_message\<close>: the user message is appended to the transcript, the handler
  runs, and its reply is appended and returned; an exception is answered with the fixed
  apology, and what the handler had changed stays changed.
\<close>

definition process_message :: "engine \<Rightarrow> string \<Rightarrow> llm \<Rightarrow> engine \<times> reply" where
  "process_message eng user_message env =
     (case route (eng\<lparr>conversation_history :=
                        conversation_history eng @ [(User, Text user_message)]\<rparr>)
                 user_message env of
        (eng1, Inr response) \<Rightarrow>
          (eng1\<lparr>conversation_history :=
                  conversation_history eng1 @ [(Assistant, response)]\<rparr>, response)
      | (eng1, Inl e) \<Rightarrow> (eng1, TECHNICAL_DIFFICULTIES))"

section \<open>Calls\<close>

text \<open>The messages of a call, each with what the language model answers during it.\<close>

fun process_messages :: "engine \<Rightarrow> (string \<times> llm) list \<Rightarrow> engine" where
  "process_messages eng [] = eng"
| "process_messages eng ((user_message, env) # rest) =
     process_messages (fst (process_message eng user_message env)) rest"

text \<open>\<^verbatim>\<open>reset_conversation\<close>; neither the AI flag nor the failure counter is reset.\<close>

definition reset_conversation :: "engine \<Rightarrow> engine" where
  "reset_conversation eng =
     eng\<lparr>current_state := GREETING, conversation_history := [], pharmacy_data := None,
         collected_info := Map.empty, current_info_field := 0, sent_emails := [],
         scheduled_callbacks := []\<rparr>"

text \<open>The extraction requests among the requests sent.\<close>

fun is_extraction_request :: "llm_request \<Rightarrow> bool" where
  "is_extraction_request (ExtractionRequest field user_message) = True"
| "is_extraction_request (GenerationRequest window user_message) = False"

definition extraction_requests :: "engine \<Rightarrow> llm_request list" where
  "extraction_requests eng = filter is_extraction_request (client_requests eng)"

text \<open>A dictionary whose \<^verbatim>\<open>rx_volume\<close>, when it has one, is a number.\<close>

definition rx_is_number :: "(string \<rightharpoonup> json) \<Rightarrow> bool" where
  "rx_is_number info = (case info ''rx_volume'' of None \<Rightarrow> True | Some v \<Rightarrow> is_number v)"

section \<open>Notions used in the proofs\<close>

text \<open>The states after information collection.\<close>

definition past_collection :: "engine \<Rightarrow> bool" where
  "past_collection e =
     (current_state e = DISCUSSING_SOLUTIONS \<or> current_state e = OFFERING_FOLLOW_UP
      \<or> current_state e = SCHEDULING \<or> current_state e = CLOSING)"

section \<open>Example calls\<close>

text \<open>The language model answering nothing usable.\<close>

definition no_llm :: llm where
  "no_llm = \<lparr>extraction = None, generation = RequestRaises\<rparr>"

text \<open>A fresh engine after \<^verbatim>\<open>start_call\<close> for a number the directory does not know.\<close>

definition new_lead :: "bool \<Rightarrow> engine" where
  "new_lead ai = fst (start_call (init_engine ai) ''555-999-9999'' NotFound)"

text \<open>A new lead without AI who has answered the first four questions.\<close>

definition four_fields_lead :: engine where
  "four_fields_lead =
     process_messages (new_lead False)
       [(''Test Pharmacy'', no_llm), (''Orlando'', no_llm), (''1500'', no_llm),
        (''John Smith'', no_llm)]"

text \<open>The same lead with the volume answered as 0.\<close>

definition zero_volume_lead :: engine where
  "zero_volume_lead =
     process_messages (new_lead False)
       [(''Test Pharmacy'', no_llm), (''Orlando'', no_llm), (''0'', no_llm),
        (''John Smith'', no_llm)]"

text \<open>A message of 4301 digits.\<close>

definition long_digit_run :: string where
  "long_digit_run = replicate 4301 CHR ''1''"

text \<open>A caller the directory knows, on an engine with AI, and the language model
  answering a generation request with no content.\<close>

definition test_pharmacy :: PharmacyData where
  "test_pharmacy =
     \<lparr>pharmacy_id = JStr ''1'', name = JStr ''Test Pharmacy'', phone = JStr ''555-123-4567'',
      location = JStr ''Test City'', rx_volume = JInt 1500, contact_person = JStr ''John Doe'',
      email = JStr ''john@testpharmacy.com'', pharmacy_notes = JNull\<rparr>"

definition known_customer :: engine where
  "known_customer = fst (start_call (init_engine True) ''555-123-4567'' (Found test_pharmacy))"

definition no_content :: llm where
  "no_content = \<lparr>extraction = None, generation = Content None\<rparr>"

text \<open>The language model answering the first extraction request with all five fields.\<close>

definition all_five :: llm where
  "all_five =
     \<lparr>extraction = Some (JObj [(''pharmacy_name'', JStr ''Test Pharmacy''),
                               (''location'', JStr ''Test City''),
                               (''rx_volume'', JInt 1500),
                               (''contact_person'', JStr ''John Doe''),
                               (''email'', JStr ''john@testpharmacy.com'')]),
      generation = RequestRaises\<rparr>"

text \<open>A new lead with AI whose first three messages yield no extraction.\<close>

definition three_failures :: engine where
  "three_failures =
     process_messages (new_lead True)
       [(''hello'', no_llm), (''are you there'', no_llm), (''hm'', no_llm)]"

text \<open>A new lead with AI for whom the first extraction returns all five fields, and who
  then says yes to the benefits message.\<close>

definition offered_follow_up :: engine where
  "offered_follow_up =
     process_messages (new_lead True) [(''hi'', all_five), (''yes'', no_llm)]"

text \<open>A new lead without AI who has answered the first two questions.\<close>

definition two_fields_lead :: engine where
  "two_fields_lead =
     process_messages (new_lead False) [(''Test Pharmacy'', no_llm), (''Orlando'', no_llm)]"

text \<open>The lead with the volume 0 after one run of the manual tier on an e-mail address:
  the cursor has passed the last field.\<close>

definition cursor_past_end :: engine where
  "cursor_past_end = fst (handle_manual_info_collection zero_volume_lead ''john@pharmacy.com'')"

text \<open>The language model answering with the pharmacy name alone, and the new lead with
  AI after a first message answered so.\<close>

definition name_only :: llm where
  "name_only =
     \<lparr>extraction = Some (JObj [(''pharmacy_name'', JStr ''Main Street Drugs'')]),
      generation = RequestRaises\<rparr>"

definition name_by_ai :: engine where
  "name_by_ai = fst (process_message (new_lead True) ''Main Street Drugs'' name_only)"

section \<open>Phone normalisation\<close>

lemma str_join_empty_sep: "str_join [] ps = concat ps"
  by (induction "[] :: string" ps rule: str_join.induct) simp_all

lemma str_isdigit_single: "str_isdigit [c] = char_isdigit c"
  by (simp add: str_isdigit_def)

lemma clean_phone_number_filter: "clean_phone_number s = filter char_isdigit s"
proof -
  have "filter str_isdigit (map (\<lambda>c. [c]) s) = map (\<lambda>c. [c]) (filter char_isdigit s)"
    by (induction s) (simp_all add: str_isdigit_single)
  moreover have "concat (map (\<lambda>c. [c]) xs) = xs" for xs :: string
    by (induction xs) simp_all
  ultimately show ?thesis
    by (simp add: clean_phone_number_def str_join_empty_sep)
qed

text \<open>
  C10, as stated: the result is exactly the subsequence of the decimal-digit characters.
  It is not: \<^verbatim>\<open>str.isdigit\<close> also holds for the superscript two (U+00B2), which is no
  decimal digit, so the number "5\<twosuperior>" is returned whole, while its only decimal digit
  is 5.
\<close>

theorem clean_phone_number_keeps_superscript:
  "clean_phone_number [CHR ''5'', CHR 0xB2] = [CHR ''5'', CHR 0xB2]
   \<and> filter char_isdecimal [CHR ''5'', CHR 0xB2] = [CHR ''5'']"
  by (simp add: clean_phone_number_def str_isdigit_def char_isdigit_def char_isdecimal_def
      code_point_def)

text \<open>
  C10, amended: for every input string, \<^verbatim>\<open>_clean_phone_number\<close> returns exactly the
  subsequence, in order, of the characters for which \<^verbatim>\<open>str.isdigit\<close> holds; that keeps
  every decimal digit; and normalisation is idempotent.
\<close>

theorem clean_phone_number_digits_idempotent:
  "clean_phone_number s = filter char_isdigit s
   \<and> subseq (clean_phone_number s) s
   \<and> filter char_isdecimal (clean_phone_number s) = filter char_isdecimal s
   \<and> clean_phone_number (clean_phone_number s) = clean_phone_number s"
proof -
  have "filter char_isdecimal (filter char_isdigit s) = filter char_isdecimal s"
    by (induction s) (auto simp: char_isdigit_def)
  then show ?thesis
    by (simp add: clean_phone_number_filter)
qed

section \<open>Starting a call: the three outcomes of the lookup\<close>

text \<open>
  C2: for every phone number and every engine, \<^verbatim>\<open>start_call\<close> with a lookup hit sets
  the state to DISCUSSING_SOLUTIONS; with a lookup miss it sets the state to
  COLLECTING_INFO and the field cursor to 0; when the lookup raises, it sets the state to
  ERROR and returns the fixed apology \<^verbatim>\<open>API_ERROR_MESSAGE\<close>.
\<close>

theorem start_call_transitions:
  "current_state (fst (start_call eng phone_no (Found d))) = DISCUSSING_SOLUTIONS
   \<and> current_state (fst (start_call eng phone_no NotFound)) = COLLECTING_INFO
   \<and> current_info_field (fst (start_call eng phone_no NotFound)) = 0
   \<and> current_state (fst (start_call eng phone_no (LookupRaises e))) = ERROR
   \<and> snd (start_call eng phone_no (LookupRaises e)) = API_ERROR_MESSAGE"
  by (simp add: start_call_def Let_def)

section \<open>The two tiers of information collection\<close>

lemma length_info_collection_fields: "length info_collection_fields = 5"
  by (simp add: info_collection_fields_def)

lemma info_collection_fields_required:
  "i < 5 \<Longrightarrow> info_collection_fields ! i \<in> set required_fields"
  by (auto simp: info_collection_fields_def required_fields_def less_Suc_eq numeral_eq_Suc)

lemma unfilled_incomplete:
  "field \<in> set required_fields \<Longrightarrow> \<not> field_filled (collected_info e) field
   \<Longrightarrow> \<not> has_complete_info e"
  by (auto simp: has_complete_info_def list_all_iff)


lemma ai_tier_cursor:
  "current_info_field (fst (ai_tier e m env)) = current_info_field e"
  by (simp add: ai_tier_def extract_pharmacy_info_for_field_def Let_def
      split: prod.splits sum.splits option.splits if_splits)

lemma ai_tier_frame:
  "ai_available (fst (ai_tier e m env)) = ai_available e"
  "ai_extraction_failures e \<le> ai_extraction_failures (fst (ai_tier e m env))"
  "sent_emails (fst (ai_tier e m env)) = sent_emails e"
  "pharmacy_data (fst (ai_tier e m env)) = pharmacy_data e"
  by (simp_all add: ai_tier_def extract_pharmacy_info_for_field_def Let_def
      split: prod.splits sum.splits option.splits if_splits)

lemma ai_tier_off:
  "\<not> ai_available e \<or> 3 \<le> ai_extraction_failures e \<Longrightarrow> ai_tier e m env = (e, Inr None)"
  by (auto simp add: ai_tier_def Let_def)

lemma ai_tier_state:
  "current_state (fst (ai_tier e m env)) = current_state e
   \<or> current_state (fst (ai_tier e m env)) = DISCUSSING_SOLUTIONS"
  by (simp add: ai_tier_def extract_pharmacy_info_for_field_def Let_def
      split: prod.splits sum.splits option.splits if_splits)

lemma ai_tier_fallthrough:
  "ai_tier e m env = (e', Inr None)
   \<Longrightarrow> collected_info e' = collected_info e \<and> current_state e' = current_state e
       \<and> current_info_field e' = current_info_field e"
  by (auto simp add: ai_tier_def extract_pharmacy_info_for_field_def Let_def
      split: prod.splits sum.splits option.splits if_splits)

lemma ai_tier_replied:
  "ai_tier e m env = (e', Inr (Some r))
   \<Longrightarrow> (current_state e' = current_state e \<or> current_state e' = DISCUSSING_SOLUTIONS)
       \<and> (has_complete_info e' \<longrightarrow> current_state e' = DISCUSSING_SOLUTIONS
            \<and> Inr r = get_solution_benefits (info_get e' ''rx_volume'' (JInt 0)))
       \<and> (\<not> has_complete_info e' \<longrightarrow> current_state e' = current_state e)"
  by (auto simp add: ai_tier_def extract_pharmacy_info_for_field_def Let_def has_complete_info_def info_get_def
      split: prod.splits sum.splits option.splits if_splits)


lemma benefits_raises:
  assumes "get_solution_benefits v = Inl x"
  shows "\<not> is_number v"
proof (cases v)
  case (JFloat f)
  with assms show ?thesis
    by (cases f) (auto simp: get_solution_benefits_def split: if_splits sum.splits bool.splits)
qed (use assms in \<open>auto simp: get_solution_benefits_def split: if_splits sum.splits bool.splits\<close>)

lemma benefits_number: "is_number v \<Longrightarrow> \<exists>r. get_solution_benefits v = Inr r"
  using benefits_raises by (cases "get_solution_benefits v") auto

lemma rx_is_number_add: "rx_is_number a \<Longrightarrow> rx_is_number b \<Longrightarrow> rx_is_number (a ++ b)"
  by (auto simp: rx_is_number_def map_add_def split: option.splits)

lemma rx_is_number_info_get:
  "rx_is_number (collected_info e) \<Longrightarrow> is_number (info_get e ''rx_volume'' (JInt 0))"
  by (auto simp: rx_is_number_def info_get_def split: option.splits)

lemma check_rx_volume_result:
  "check_rx_volume d v = Inr (d', valid) \<Longrightarrow> rx_is_number (map_of d)
   \<Longrightarrow> rx_is_number (map_of d')"
  by (auto simp: check_rx_volume_def rx_is_number_def split: json.splits if_splits sum.splits)

lemma check_rx_volume_truthy:
  "check_rx_volume d v = Inr (d', True) \<Longrightarrow> map_of d ''rx_volume'' = Some v \<Longrightarrow> truthy v
   \<Longrightarrow> \<exists>w. map_of d' ''rx_volume'' = Some w \<and> truthy w"
  by (auto simp: check_rx_volume_def split: json.splits if_splits sum.splits)

lemma ai_tier_numeric:
  assumes "rx_is_number (collected_info e)"
    and "rx_is_number (map_of (parse_extraction (extraction env)))"
  shows "rx_is_number (collected_info (fst (ai_tier e m env)))"
  using assms
  by (auto simp add: ai_tier_def extract_pharmacy_info_for_field_def Let_def
      rx_is_number_add
      dest: check_rx_volume_result
      split: prod.splits sum.splits option.splits if_splits)

lemma benefits_info_raises:
  "get_solution_benefits (info_get e ''rx_volume'' (JInt 0)) = Inl x
   \<Longrightarrow> \<not> rx_is_number (collected_info e)"
  using benefits_raises rx_is_number_info_get by blast

lemma ai_tier_raised_numeric:
  assumes "rx_is_number (collected_info e)"
    and "rx_is_number (map_of (parse_extraction (extraction env)))"
    and "ai_tier e m env = (e', Inl x)"
  shows "collected_info e' = collected_info e \<and> current_state e' = current_state e"
  using assms
  by (auto simp add: ai_tier_def extract_pharmacy_info_for_field_def Let_def
      rx_is_number_add
      dest!: benefits_info_raises dest: check_rx_volume_result
      split: prod.splits sum.splits option.splits if_splits)


lemma ai_tier_raised:
  "ai_tier e m env = (e', Inl x)
   \<Longrightarrow> (collected_info e' = collected_info e \<and> current_state e' = current_state e)
       \<or> current_state e' = DISCUSSING_SOLUTIONS"
  by (auto simp add: ai_tier_def extract_pharmacy_info_for_field_def Let_def
      split: prod.splits sum.splits option.splits if_splits)

lemma benefits_type_error: "get_solution_benefits v = Inl x \<Longrightarrow> x = TypeError"
proof (cases v)
  case (JFloat f)
  assume "get_solution_benefits v = Inl x"
  with JFloat show ?thesis
    by (cases f) (auto simp: get_solution_benefits_def split: if_splits sum.splits bool.splits)
qed (auto simp: get_solution_benefits_def split: if_splits sum.splits bool.splits)

lemma manual_extract_raised:
  "manual_extract field m = Inl x
   \<Longrightarrow> x = ValueError \<and> field = ''rx_volume'' \<and> extract_rx_volume m = Inl ValueError"
  by (auto simp: manual_extract_def extract_rx_volume_def int_of_digits_def
      split: if_splits sum.splits list.splits)

lemma manual_extract_rx_number:
  "manual_extract ''rx_volume'' m = Inr (Some v) \<Longrightarrow> is_number v"
  by (auto simp: manual_extract_def split: sum.splits)

lemma manual_extract_field_number:
  "manual_extract field m = Inr (Some v) \<Longrightarrow> rx_is_number info
   \<Longrightarrow> rx_is_number (info(field \<mapsto> v))"
  using manual_extract_rx_number by (auto simp: rx_is_number_def)

lemma manual_numeric:
  "rx_is_number (collected_info e)
   \<Longrightarrow> rx_is_number (collected_info (fst (handle_manual_info_collection e m)))"
  by (auto simp: handle_manual_info_collection_def Let_def manual_extract_field_number
      split: option.splits sum.splits)

lemma manual_state:
  "current_state (fst (handle_manual_info_collection e m)) = current_state e
   \<or> current_state (fst (handle_manual_info_collection e m)) = DISCUSSING_SOLUTIONS"
  by (simp add: handle_manual_info_collection_def Let_def split: option.splits sum.splits)

lemma manual_raised:
  assumes "handle_manual_info_collection e m = (e', Inl x)"
  shows "(x = ValueError \<and> e' = e \<and> extract_rx_volume m = Inl ValueError)
       \<or> (x = IndexError \<and> 5 \<le> current_info_field e')
       \<or> (x = TypeError \<and> current_state e' = DISCUSSING_SOLUTIONS)"
  using assms
  by (auto simp: handle_manual_info_collection_def Let_def length_info_collection_fields
      dest: benefits_type_error manual_extract_raised
      split: option.splits sum.splits if_splits)

lemma manual_complete:
  "has_complete_info (fst (handle_manual_info_collection e m))
   \<Longrightarrow> current_state (fst (handle_manual_info_collection e m)) = DISCUSSING_SOLUTIONS
       \<or> (handle_manual_info_collection e m = (e, Inl ValueError)
           \<and> extract_rx_volume m = Inl ValueError)"
  by (auto simp add: handle_manual_info_collection_def Let_def has_complete_info_def
      dest: manual_extract_raised
      split: option.splits sum.splits if_splits)

lemma manual_past_end:
  "5 \<le> current_info_field e
   \<Longrightarrow> handle_manual_info_collection e m
       = (e\<lparr>current_state := DISCUSSING_SOLUTIONS\<rparr>,
          get_solution_benefits (info_get e ''rx_volume'' (JInt 0)))"
  by (simp add: handle_manual_info_collection_def Let_def length_info_collection_fields
      info_get_def)

lemma manual_discussing:
  assumes "current_state e = COLLECTING_INFO"
    and "handle_manual_info_collection e m = (e', res)"
    and "current_state e' = DISCUSSING_SOLUTIONS"
  shows "res = get_solution_benefits (info_get e' ''rx_volume'' (JInt 0))
         \<and> (has_complete_info e' \<or> 5 \<le> current_info_field e')"
  using assms
  by (auto simp: handle_manual_info_collection_def Let_def length_info_collection_fields
      has_complete_info_def info_get_def split: option.splits sum.splits if_splits)

lemma manual_raised_numeric:
  assumes "rx_is_number (collected_info e)"
    and "handle_manual_info_collection e m = (e', Inl x)"
  shows "current_state e' = current_state e \<and> rx_is_number (collected_info e')"
  using assms
  by (auto simp: handle_manual_info_collection_def Let_def length_info_collection_fields
      manual_extract_field_number
      dest!: benefits_info_raises
      split: option.splits sum.splits if_splits)

lemma info_collection_state:
  assumes "current_state e = COLLECTING_INFO"
  shows "current_state (fst (handle_info_collection e m env)) = COLLECTING_INFO
         \<or> current_state (fst (handle_info_collection e m env)) = DISCUSSING_SOLUTIONS"
proof (cases "ai_tier e m env")
  case (Pair e1 out)
  have s1: "current_state e1 = COLLECTING_INFO \<or> current_state e1 = DISCUSSING_SOLUTIONS"
    using ai_tier_state[of e m env] assms Pair by auto
  have step: "current_state (fst (handle_manual_info_collection a m)) = COLLECTING_INFO
         \<or> current_state (fst (handle_manual_info_collection a m)) = DISCUSSING_SOLUTIONS"
    if "current_state a = COLLECTING_INFO \<or> current_state a = DISCUSSING_SOLUTIONS" for a
    using manual_state[of a m] that by auto
  show ?thesis
  proof (cases out)
    case (Inl x)
    then show ?thesis
      using Pair step[OF s1] by (simp add: handle_info_collection_def)
  next
    case (Inr ro)
    show ?thesis
    proof (cases ro)
      case (Some r)
      then show ?thesis
        using Pair Inr s1 by (simp add: handle_info_collection_def)
    next
      case None
      obtain e2 out2 where m1: "handle_manual_info_collection e1 m = (e2, out2)"
        by (cases "handle_manual_info_collection e1 m")
      have s2: "current_state e2 = COLLECTING_INFO \<or> current_state e2 = DISCUSSING_SOLUTIONS"
        using step[OF s1] m1 by simp
      show ?thesis
        using Pair Inr None m1 s2 step[OF s2]
        by (cases out2) (simp_all add: handle_info_collection_def)
    qed
  qed
qed

lemma info_collection_complete:
  assumes "current_state e = COLLECTING_INFO"
    and c: "has_complete_info (fst (handle_info_collection e m env))"
  shows "current_state (fst (handle_info_collection e m env)) = DISCUSSING_SOLUTIONS
         \<or> (has_complete_info e \<and> snd (handle_info_collection e m env) = Inl ValueError
             \<and> extract_rx_volume m = Inl ValueError)"
proof (cases "ai_tier e m env")
  case (Pair e1 out)
  show ?thesis
  proof (cases out)
    case (Inl x)
    have h: "handle_info_collection e m env = handle_manual_info_collection e1 m"
      using Pair Inl by (simp add: handle_info_collection_def)
    from manual_complete[of e1 m] c h
    consider "current_state (fst (handle_manual_info_collection e1 m)) = DISCUSSING_SOLUTIONS"
      | "handle_manual_info_collection e1 m = (e1, Inl ValueError)"
        "extract_rx_volume m = Inl ValueError"
      by auto
    then show ?thesis
    proof cases
      case 1
      then show ?thesis using h by simp
    next
      case 2
      from ai_tier_raised[of e m env e1 x] Pair Inl
      have "(collected_info e1 = collected_info e \<and> current_state e1 = current_state e)
            \<or> current_state e1 = DISCUSSING_SOLUTIONS"
        by simp
      then show ?thesis
        using 2 h c by (auto simp: has_complete_info_def)
    qed
  next
    case (Inr ro)
    show ?thesis
    proof (cases ro)
      case (Some r)
      then show ?thesis
        using Pair Inr c ai_tier_replied[of e m env e1 r]
        by (simp add: handle_info_collection_def)
    next
      case None
      have same: "collected_info e1 = collected_info e"
        using ai_tier_fallthrough[of e m env e1] Pair Inr None by simp
      obtain e2 out2 where m1: "handle_manual_info_collection e1 m = (e2, out2)"
        by (cases "handle_manual_info_collection e1 m")
      show ?thesis
      proof (cases out2)
        case (Inr r)
        then have h: "handle_info_collection e m env = (e2, Inr r)"
          using Pair \<open>out = Inr ro\<close> None m1 by (simp add: handle_info_collection_def)
        then show ?thesis
          using manual_complete[of e1 m] m1 Inr c by simp
      next
        case (Inl x)
        then have h: "handle_info_collection e m env = handle_manual_info_collection e2 m"
          using Pair \<open>out = Inr ro\<close> None m1 by (simp add: handle_info_collection_def)
        from manual_complete[of e2 m] c h
        consider
          "current_state (fst (handle_manual_info_collection e2 m)) = DISCUSSING_SOLUTIONS"
          | "handle_manual_info_collection e2 m = (e2, Inl ValueError)"
            "extract_rx_volume m = Inl ValueError"
          by auto
        then show ?thesis
        proof cases
          case 1
          then show ?thesis using h by simp
        next
          case 2
          from manual_raised[of e1 m e2 x] m1 Inl
          consider "e2 = e1" | "5 \<le> current_info_field e2"
            | "current_state e2 = DISCUSSING_SOLUTIONS"
            by auto
          then show ?thesis
          proof cases
            case 1
            then show ?thesis
              using 2 h c same by (auto simp: has_complete_info_def)
          next
            case 2
            then show ?thesis
              using h by (simp add: manual_past_end)
          next
            case 3
            then show ?thesis
              using \<open>handle_manual_info_collection e2 m = (e2, Inl ValueError)\<close> h by simp
          qed
        qed
      qed
    qed
  qed
qed

lemma info_collection_discussing:
  assumes "current_state e = COLLECTING_INFO"
    and num: "rx_is_number (collected_info e)"
      "rx_is_number (map_of (parse_extraction (extraction env)))"
    and res: "handle_info_collection e m env = (e', res)"
    and disc: "current_state e' = DISCUSSING_SOLUTIONS"
  shows "res = get_solution_benefits (info_get e' ''rx_volume'' (JInt 0))
         \<and> (has_complete_info e' \<or> 5 \<le> current_info_field e')"
proof (cases "ai_tier e m env")
  case (Pair e1 out)
  show ?thesis
  proof (cases out)
    case (Inl x)
    have "collected_info e1 = collected_info e \<and> current_state e1 = current_state e"
      using ai_tier_raised_numeric[OF num] Pair Inl by simp
    moreover have "handle_manual_info_collection e1 m = (e', res)"
      using Pair Inl res by (simp add: handle_info_collection_def)
    ultimately show ?thesis
      using manual_discussing[of e1 m e' res] assms(1) disc by simp
  next
    case (Inr ro)
    show ?thesis
    proof (cases ro)
      case (Some r)
      then have "e' = e1" "res = Inr r"
        using Pair Inr res by (simp_all add: handle_info_collection_def)
      then show ?thesis
        using ai_tier_replied[of e m env e1 r] Pair Inr Some disc assms(1) by auto
    next
      case None
      have same: "collected_info e1 = collected_info e \<and> current_state e1 = current_state e
                  \<and> current_info_field e1 = current_info_field e"
        using ai_tier_fallthrough[of e m env e1] Pair Inr None by simp
      obtain e2 out2 where m1: "handle_manual_info_collection e1 m = (e2, out2)"
        by (cases "handle_manual_info_collection e1 m")
      show ?thesis
      proof (cases out2)
        case (Inr r)
        then have "handle_manual_info_collection e1 m = (e', res)"
          using Pair \<open>out = Inr ro\<close> None m1 res by (simp add: handle_info_collection_def)
        then show ?thesis
          using manual_discussing[of e1 m e' res] same assms(1) disc by simp
      next
        case (Inl x)
        have e2: "current_state e2 = COLLECTING_INFO"
          using manual_raised_numeric[of e1 m e2 x] m1 Inl same num(1) assms(1) by simp
        have "handle_manual_info_collection e2 m = (e', res)"
          using Pair \<open>out = Inr ro\<close> None m1 Inl res by (simp add: handle_info_collection_def)
        then show ?thesis
          using manual_discussing[of e2 m e' res] e2 disc by simp
      qed
    qed
  qed
qed

lemma process_message_collecting:
  "current_state e = COLLECTING_INFO
   \<Longrightarrow> process_message e m env =
       (case handle_info_collection
               (e\<lparr>conversation_history := conversation_history e @ [(User, Text m)]\<rparr>) m env of
          (e1, Inr response) \<Rightarrow>
            (e1\<lparr>conversation_history := conversation_history e1 @ [(Assistant, response)]\<rparr>,
             response)
        | (e1, Inl x) \<Rightarrow> (e1, TECHNICAL_DIFFICULTIES))"
  by (simp add: process_message_def route_def)

lemma history_irrelevant:
  "has_complete_info (e\<lparr>conversation_history := h\<rparr>) = has_complete_info e"
  "info_get (e\<lparr>conversation_history := h\<rparr>) k d = info_get e k d"
  by (simp_all add: has_complete_info_def info_get_def)

lemma manual_failures:
  "ai_extraction_failures (fst (handle_manual_info_collection e m)) = ai_extraction_failures e"
  "client_requests (fst (handle_manual_info_collection e m)) = client_requests e"
  "ai_available (fst (handle_manual_info_collection e m)) = ai_available e"
  by (simp_all add: handle_manual_info_collection_def Let_def split: option.splits sum.splits)

lemma info_collection_numeric:
  assumes "rx_is_number (collected_info e)"
    and "rx_is_number (map_of (parse_extraction (extraction env)))"
  shows "rx_is_number (collected_info (fst (handle_info_collection e m env)))"
proof -
  have "rx_is_number (collected_info (fst (ai_tier e m env)))"
    using assms by (rule ai_tier_numeric)
  then show ?thesis
    using manual_numeric
    by (auto simp: handle_info_collection_def split: prod.splits sum.splits option.splits)
       (metis fst_conv)+
qed

lemma process_message_collecting_state:
  assumes "current_state e = COLLECTING_INFO"
  shows "(current_state (fst (process_message e m env)) = COLLECTING_INFO
          \<or> current_state (fst (process_message e m env)) = DISCUSSING_SOLUTIONS)
       \<and> (has_complete_info (fst (process_message e m env))
          \<longrightarrow> current_state (fst (process_message e m env)) = DISCUSSING_SOLUTIONS
              \<or> (has_complete_info e \<and> extract_rx_volume m = Inl ValueError
                  \<and> snd (process_message e m env) = TECHNICAL_DIFFICULTIES))"
proof -
  let ?e0 = "e\<lparr>conversation_history := conversation_history e @ [(User, Text m)]\<rparr>"
  have c: "current_state ?e0 = COLLECTING_INFO" using assms by simp
  show ?thesis
    using info_collection_state[OF c, of m env] info_collection_complete[OF c, of m env]
    by (auto simp: process_message_collecting[OF assms] history_irrelevant
        split: prod.splits sum.splits)
qed

lemma process_message_collecting_discussing:
  assumes "current_state e = COLLECTING_INFO"
    and "rx_is_number (collected_info e)"
    and "rx_is_number (map_of (parse_extraction (extraction env)))"
    and "current_state (fst (process_message e m env)) = DISCUSSING_SOLUTIONS"
  shows "(has_complete_info (fst (process_message e m env))
          \<or> 5 \<le> current_info_field (fst (process_message e m env)))
       \<and> Inr (snd (process_message e m env))
         = get_solution_benefits (info_get (fst (process_message e m env)) ''rx_volume'' (JInt 0))"
proof -
  let ?e0 = "e\<lparr>conversation_history := conversation_history e @ [(User, Text m)]\<rparr>"
  obtain e1 res where h: "handle_info_collection ?e0 m env = (e1, res)"
    by (cases "handle_info_collection ?e0 m env")
  have c: "current_state ?e0 = COLLECTING_INFO" using assms by simp
  have n: "rx_is_number (collected_info ?e0)" using assms by simp
  have d: "current_state e1 = DISCUSSING_SOLUTIONS"
    using assms(4) h by (auto simp: process_message_collecting[OF assms(1)] split: sum.splits)
  have facts: "res = get_solution_benefits (info_get e1 ''rx_volume'' (JInt 0))
         \<and> (has_complete_info e1 \<or> 5 \<le> current_info_field e1)"
    using info_collection_discussing[OF c n assms(3) h d] .
  have "rx_is_number (collected_info e1)"
    using info_collection_numeric[OF n assms(3), of m] h by simp
  then obtain r where "res = Inr r"
    using facts benefits_number rx_is_number_info_get by metis
  then show ?thesis
    using facts h by (auto simp: process_message_collecting[OF assms(1)] history_irrelevant)
qed

section \<open>C1: leaving COLLECTING_INFO\<close>

text \<open>
  C1, as stated: while the state is COLLECTING_INFO, a message leaves it there unless
  all five fields are present and truthy afterwards. It does not: a new lead without AI
  answers ``Test Pharmacy'', ``Orlando'', ``0'', ``John Smith'' and then gives an e-mail
  address. The volume 0 is stored and is falsy; the e-mail answer moves the cursor past
  the last field, and the state becomes DISCUSSING_SOLUTIONS with CollectedInfo
  incomplete.
\<close>

theorem collecting_info_leaves_incomplete:
  "current_state zero_volume_lead = COLLECTING_INFO
   \<and> current_state (fst (process_message zero_volume_lead ''john@pharmacy.com'' no_llm))
       = DISCUSSING_SOLUTIONS
   \<and> \<not> has_complete_info (fst (process_message zero_volume_lead ''john@pharmacy.com'' no_llm))"
  by code_simp

text \<open>
  C1, amended: while the state is COLLECTING_INFO, processing a message leaves the state
  COLLECTING_INFO or moves it to DISCUSSING_SOLUTIONS, and it moves whenever all five
  fields are present and truthy after the attempt (unless they were so already before
  the message and the conversion of the message's digit run raises, which is answered
  with the apology). When every \<^verbatim>\<open>rx_volume\<close> held in CollectedInfo or returned by the
  extraction is a number, the state moves only if, after the attempt, the completeness
  check holds or the field cursor has passed the last field, and the reply is then the
  volume-tiered benefits message.
\<close>

theorem collecting_info_transitions:
  assumes "current_state eng = COLLECTING_INFO"
  shows "(current_state (fst (process_message eng user_message env)) = COLLECTING_INFO
          \<or> current_state (fst (process_message eng user_message env)) = DISCUSSING_SOLUTIONS)
       \<and> (has_complete_info (fst (process_message eng user_message env))
          \<longrightarrow> current_state (fst (process_message eng user_message env)) = DISCUSSING_SOLUTIONS
              \<or> (has_complete_info eng \<and> extract_rx_volume user_message = Inl ValueError
                  \<and> snd (process_message eng user_message env) = TECHNICAL_DIFFICULTIES))
       \<and> (rx_is_number (collected_info eng)
            \<and> rx_is_number (map_of (parse_extraction (extraction env)))
            \<and> current_state (fst (process_message eng user_message env)) = DISCUSSING_SOLUTIONS
          \<longrightarrow> (has_complete_info (fst (process_message eng user_message env))
                \<or> 5 \<le> current_info_field (fst (process_message eng user_message env)))
              \<and> Inr (snd (process_message eng user_message env))
                = get_solution_benefits
                    (info_get (fst (process_message eng user_message env)) ''rx_volume''
                       (JInt 0)))"
  using process_message_collecting_state[OF assms, of user_message env]
    process_message_collecting_discussing[OF assms, of env user_message]
  by blast

text \<open>The amended C1 at the lead who has answered four questions and gives the e-mail
  address: the information is complete, the state moves, the reply is the high-volume
  benefits message.\<close>

theorem collecting_info_transitions_witness:
  "current_state four_fields_lead = COLLECTING_INFO
   \<and> rx_is_number (collected_info four_fields_lead)
   \<and> rx_is_number (map_of (parse_extraction (extraction no_llm)))
   \<and> has_complete_info (fst (process_message four_fields_lead ''john@pharmacy.com'' no_llm))
   \<and> current_state (fst (process_message four_fields_lead ''john@pharmacy.com'' no_llm))
       = DISCUSSING_SOLUTIONS
   \<and> Inr (snd (process_message four_fields_lead ''john@pharmacy.com'' no_llm))
       = get_solution_benefits
           (info_get (fst (process_message four_fields_lead ''john@pharmacy.com'' no_llm))
              ''rx_volume'' (JInt 0))
   \<and> snd (process_message four_fields_lead ''john@pharmacy.com'' no_llm) = BENEFITS_HIGH_VOLUME"
proof -
  have s: "current_state four_fields_lead = COLLECTING_INFO"
    by code_simp
  have n: "rx_is_number (collected_info four_fields_lead)"
    "rx_is_number (map_of (parse_extraction (extraction no_llm)))"
    by code_simp+
  have c: "has_complete_info (fst (process_message four_fields_lead ''john@pharmacy.com'' no_llm))"
    by code_simp
  have r: "snd (process_message four_fields_lead ''john@pharmacy.com'' no_llm)
           = BENEFITS_HIGH_VOLUME"
    by code_simp
  show ?thesis
    using collecting_info_transitions[OF s, of "''john@pharmacy.com''" no_llm] s n c r
    by simp
qed

section \<open>C4: the field cursor of the manual tier\<close>

lemma digit_runs_replicate:
  "char_isdecimal c
   \<Longrightarrow> digit_runs r (replicate n c) = (if r = [] \<and> n = 0 then [] else [r @ replicate n c])"
proof (induction n arbitrary: r)
  case 0
  then show ?case by simp
next
  case (Suc n)
  then show ?case by (simp add: replicate_app_Cons_same)
qed

lemma long_digit_run_raises: "extract_rx_volume long_digit_run = Inl ValueError"
proof -
  have "char_isdecimal CHR ''1''"
    by (simp add: char_isdecimal_def code_point_def)
  then have "digit_runs [] long_digit_run = [long_digit_run]"
    by (simp add: digit_runs_replicate long_digit_run_def)
  then show ?thesis
    by (simp add: extract_rx_volume_def int_of_digits_def int_max_str_digits_def
        long_digit_run_def)
qed

lemma manual_conversion_raises:
  assumes "current_info_field e = 2" and "extract_rx_volume m = Inl ValueError"
  shows "handle_manual_info_collection e m = (e, Inl ValueError)"
  using assms
  by (simp add: handle_manual_info_collection_def Let_def info_collection_fields_def
      manual_extract_def)

lemma process_message_conversion_raises:
  assumes "current_state e = COLLECTING_INFO" and "\<not> ai_available e"
    and "current_info_field e = 2" and "extract_rx_volume m = Inl ValueError"
  shows "process_message e m env
         = (e\<lparr>conversation_history := conversation_history e @ [(User, Text m)]\<rparr>,
            TECHNICAL_DIFFICULTIES)"
proof -
  let ?e0 = "e\<lparr>conversation_history := conversation_history e @ [(User, Text m)]\<rparr>"
  have "handle_manual_info_collection ?e0 m = (?e0, Inl ValueError)"
    using assms(3,4) by (intro manual_conversion_raises) simp_all
  moreover have "ai_tier ?e0 m env = (?e0, Inr None)"
    using assms(2) by (intro ai_tier_off) simp
  ultimately show ?thesis
    using assms(1) by (simp add: process_message_def route_def handle_info_collection_def)
qed

text \<open>
  C4: the claim holds of the code except for one input. A new lead without AI has given
  name and location, so the cursor is on rx_volume, and now sends 4301 digits. The
  pattern finds the digit run, \<^verbatim>\<open>int\<close> raises \<^verbatim>\<open>ValueError\<close> on it, nothing is stored
  and the cursor stays on rx_volume, as the claim says for a message that yields no
  value; but the manual tier raises instead of asking the question again, and
  \<^verbatim>\<open>process_message\<close> replies with the technical-difficulties apology.
\<close>

theorem manual_conversion_error_not_reasked:
  "current_state two_fields_lead = COLLECTING_INFO
   \<and> current_info_field two_fields_lead = 2
   \<and> info_collection_fields ! 2 = ''rx_volume''
   \<and> extract_rx_volume long_digit_run = Inl ValueError
   \<and> handle_manual_info_collection two_fields_lead long_digit_run
       = (two_fields_lead, Inl ValueError)
   \<and> snd (process_message two_fields_lead long_digit_run no_llm) = TECHNICAL_DIFFICULTIES
   \<and> current_info_field (fst (process_message two_fields_lead long_digit_run no_llm)) = 2
   \<and> collected_info (fst (process_message two_fields_lead long_digit_run no_llm))
       = collected_info two_fields_lead
   \<and> get_collecting_info_response ''rx_volume'' = COLLECTING_INFO_QUESTION ''rx_volume''"
proof -
  have f: "current_state two_fields_lead = COLLECTING_INFO"
    "\<not> ai_available two_fields_lead"
    "current_info_field two_fields_lead = 2"
    "info_collection_fields ! 2 = ''rx_volume''"
    "get_collecting_info_response ''rx_volume'' = COLLECTING_INFO_QUESTION ''rx_volume''"
    by code_simp+
  show ?thesis
    using f long_digit_run_raises
      manual_conversion_raises[OF f(3) long_digit_run_raises]
      process_message_conversion_raises[OF f(1) f(2) f(3) long_digit_run_raises, of no_llm]
    by simp
qed

section \<open>Messages in the other states, and whole calls\<close>

lemma process_message_other_state:
  assumes "current_state e \<noteq> COLLECTING_INFO"
  shows "collected_info (fst (process_message e m env)) = collected_info e"
    and "ai_extraction_failures (fst (process_message e m env)) = ai_extraction_failures e"
    and "extraction_requests (fst (process_message e m env)) = extraction_requests e"
    and "past_collection e \<Longrightarrow> past_collection (fst (process_message e m env))"
    and "current_state e = ERROR
         \<Longrightarrow> current_state (fst (process_message e m env)) = COLLECTING_INFO"
    and "current_state e = GREETING
         \<Longrightarrow> current_state (fst (process_message e m env)) = GREETING"
  using assms
  by (cases "current_state e";
      simp add: process_message_def route_def handle_solution_discussion_def
        generate_ai_response_def handle_follow_up_offer_def handle_scheduling_def
        handle_closing_def handle_error_recovery_def send_welcome_email_def send_email_def
        schedule_consultation_def schedule_callback_def extraction_requests_def
        past_collection_def Let_def
        split: option.splits completion.splits)+

lemma info_collection_failures:
  "ai_extraction_failures e \<le> ai_extraction_failures (fst (handle_info_collection e m env))"
proof -
  have "ai_extraction_failures e \<le> ai_extraction_failures (fst (ai_tier e m env))"
    by (rule ai_tier_frame)
  then show ?thesis
    using manual_failures(1)
    by (auto simp: handle_info_collection_def split: prod.splits sum.splits option.splits)
       (metis fst_conv)+
qed

lemma info_collection_manual_only:
  assumes "\<not> ai_available e \<or> 3 \<le> ai_extraction_failures e"
  shows "handle_info_collection e m env =
           (case handle_manual_info_collection e m of
              (e2, Inl x) \<Rightarrow> handle_manual_info_collection e2 m
            | (e2, Inr r) \<Rightarrow> (e2, Inr r))"
  by (simp add: handle_info_collection_def ai_tier_off[OF assms])

lemma info_collection_no_request:
  assumes "\<not> ai_available e \<or> 3 \<le> ai_extraction_failures e"
  shows "client_requests (fst (handle_info_collection e m env)) = client_requests e"
  using manual_failures(2)
  by (auto simp: info_collection_manual_only[OF assms] split: prod.splits sum.splits)
     (metis fst_conv)+

lemma process_message_failures:
  "ai_extraction_failures e \<le> ai_extraction_failures (fst (process_message e m env))"
proof (cases "current_state e = COLLECTING_INFO")
  case True
  show ?thesis
    using info_collection_failures[of "e\<lparr>conversation_history := conversation_history e @ [(User, Text m)]\<rparr>" m env]
    by (auto simp: process_message_collecting[OF True] split: prod.splits sum.splits)
next
  case False
  then show ?thesis by (simp add: process_message_other_state)
qed

lemma process_message_no_extraction:
  assumes "3 \<le> ai_extraction_failures e"
  shows "extraction_requests (fst (process_message e m env)) = extraction_requests e"
proof (cases "current_state e = COLLECTING_INFO")
  case True
  let ?e0 = "e\<lparr>conversation_history := conversation_history e @ [(User, Text m)]\<rparr>"
  have "\<not> ai_available ?e0 \<or> 3 \<le> ai_extraction_failures ?e0" using assms by simp
  from info_collection_no_request[OF this, of m env] show ?thesis
    by (auto simp: process_message_collecting[OF True] extraction_requests_def
        split: prod.splits sum.splits)
next
  case False
  then show ?thesis by (simp add: process_message_other_state)
qed

lemma process_messages_append:
  "process_messages e (xs @ ys) = process_messages (process_messages e xs) ys"
  by (induction xs arbitrary: e) auto

lemma collected_before_leaving_step:
  assumes "past_collection e \<or> \<not> has_complete_info e"
  shows "past_collection (fst (process_message e m env))
         \<or> \<not> has_complete_info (fst (process_message e m env))"
proof (cases "current_state e = COLLECTING_INFO")
  case True
  then have "\<not> has_complete_info e"
    using assms by (auto simp: past_collection_def)
  with process_message_collecting_state[OF True, of m env] show ?thesis
    by (auto simp: past_collection_def)
next
  case False
  then show ?thesis
    using assms process_message_other_state(1,4)[OF False, of m env]
    by (auto simp: has_complete_info_def)
qed

lemma past_collection_step:
  "past_collection e \<Longrightarrow> past_collection (fst (process_message e m env))"
  by (rule process_message_other_state(4)) (auto simp: past_collection_def)

lemma collected_before_leaving:
  "past_collection e \<or> \<not> has_complete_info e
   \<Longrightarrow> past_collection (process_messages e ms) \<or> \<not> has_complete_info (process_messages e ms)"
proof (induction ms arbitrary: e)
  case Nil
  then show ?case by simp
next
  case (Cons a ms)
  obtain m env where a: "a = (m, env)" by (cases a)
  have "past_collection (fst (process_message e m env))
        \<or> \<not> has_complete_info (fst (process_message e m env))"
    using Cons.prems by (rule collected_before_leaving_step)
  from Cons.IH[OF this] show ?case by (simp add: a)
qed

lemma past_collection_stays:
  "past_collection e \<Longrightarrow> past_collection (process_messages e ms)"
proof (induction ms arbitrary: e)
  case Nil
  then show ?case by simp
next
  case (Cons a ms)
  obtain m env where a: "a = (m, env)" by (cases a)
  have "past_collection (fst (process_message e m env))"
    using Cons.prems by (rule past_collection_step)
  from Cons.IH[OF this] show ?case by (simp add: a)
qed

lemma start_call_incomplete:
  assumes "\<not> has_complete_info e"
  shows "past_collection (fst (start_call e p lk))
         \<or> \<not> has_complete_info (fst (start_call e p lk))"
  using assms
  by (cases lk)
     (simp_all add: start_call_def past_collection_def has_complete_info_def Let_def)

lemma empty_info_incomplete: "collected_info e = Map.empty \<Longrightarrow> \<not> has_complete_info e"
  by (simp add: has_complete_info_def required_fields_def field_filled_def)

lemma fresh_or_reset_empty:
  "collected_info (init_engine ai) = Map.empty"
  "collected_info (reset_conversation e) = Map.empty"
  by (simp_all add: init_engine_def reset_conversation_def)

section \<open>C5: no return to COLLECTING_INFO\<close>

text \<open>
  C5: a call is \<^verbatim>\<open>start_call\<close> on an engine whose CollectedInfo is empty, as it is in
  a fresh engine and after \<^verbatim>\<open>reset_conversation\<close>, followed by messages, with any
  answers of the directory and of the language model. Once all five fields of
  CollectedInfo are present and truthy after some of the messages, the state is not
  COLLECTING_INFO then, nor after any further messages.
\<close>

theorem complete_info_never_recollects:
  assumes "collected_info eng = Map.empty"
    and "has_complete_info (process_messages (fst (start_call eng phone_no lk)) before)"
  shows "current_state (process_messages (fst (start_call eng phone_no lk)) (before @ later))
         \<noteq> COLLECTING_INFO"
proof -
  let ?e = "process_messages (fst (start_call eng phone_no lk)) before"
  have "\<not> has_complete_info eng"
    using assms(1) by (rule empty_info_incomplete)
  then have "past_collection ?e \<or> \<not> has_complete_info ?e"
    by (intro collected_before_leaving start_call_incomplete)
  then have "past_collection ?e"
    using assms(2) by blast
  then have "past_collection (process_messages ?e later)"
    by (rule past_collection_stays)
  then show ?thesis
    by (auto simp: process_messages_append past_collection_def)
qed

text \<open>C5 at a call on a fresh engine in which the first extraction fills all five
  fields and two more messages follow.\<close>

theorem complete_info_never_recollects_witness:
  "collected_info (init_engine True) = Map.empty
   \<and> has_complete_info
       (process_messages (fst (start_call (init_engine True) ''555-999-9999'' NotFound))
          [(''hi'', all_five)])
   \<and> current_state
       (process_messages (fst (start_call (init_engine True) ''555-999-9999'' NotFound))
          ([(''hi'', all_five)] @ [(''tell me about pricing'', no_llm), (''yes'', no_llm)]))
     \<noteq> COLLECTING_INFO"
proof -
  have e: "collected_info (init_engine True) = Map.empty"
    by (rule fresh_or_reset_empty)
  have h: "has_complete_info
     (process_messages (fst (start_call (init_engine True) ''555-999-9999'' NotFound))
        [(''hi'', all_five)])"
    by code_simp
  show ?thesis
    using complete_info_never_recollects
            [OF e h, of "[(''tell me about pricing'', no_llm), (''yes'', no_llm)]"] e h
    by blast
qed

section \<open>C3: the AI tier after three failures\<close>

text \<open>
  C3: once the failure counter has reached 3, no sequence of further messages sends
  another extraction request, whatever the language model would answer and whatever
  state the call is in; the counter stays at 3 or above; and information collection
  is the manual tier alone (run a second time when its first run raises).
\<close>

theorem ai_tier_disabled_after_three_failures:
  assumes "3 \<le> ai_extraction_failures eng"
  shows "extraction_requests (process_messages eng msgs) = extraction_requests eng
       \<and> 3 \<le> ai_extraction_failures (process_messages eng msgs)
       \<and> handle_info_collection eng user_message env =
           (case handle_manual_info_collection eng user_message of
              (e2, Inl x) \<Rightarrow> handle_manual_info_collection e2 user_message
            | (e2, Inr r) \<Rightarrow> (e2, Inr r))"
proof -
  have "extraction_requests (process_messages e msgs) = extraction_requests e
       \<and> 3 \<le> ai_extraction_failures (process_messages e msgs)"
    if "3 \<le> ai_extraction_failures e" for e
    using that
  proof (induction msgs arbitrary: e)
    case Nil
    then show ?case by simp
  next
    case (Cons a msgs)
    obtain m env' where a: "a = (m, env')" by (cases a)
    have "3 \<le> ai_extraction_failures (fst (process_message e m env'))"
      using Cons.prems process_message_failures[of e m env'] by simp
    from Cons.IH[OF this] show ?case
      using process_message_no_extraction[OF Cons.prems, of m env'] a by simp
  qed
  then show ?thesis
    using assms info_collection_manual_only[of eng user_message env] by simp
qed


text \<open>C3 at a new lead with AI after three messages that yield no extraction: three
  requests were sent, and a further message, for which the model would return all five
  fields, sends none.\<close>

theorem ai_tier_disabled_after_three_failures_witness:
  "3 \<le> ai_extraction_failures three_failures
   \<and> length (extraction_requests three_failures) = 3
   \<and> extraction_requests (process_messages three_failures [(''hi'', all_five)])
     = extraction_requests three_failures
   \<and> current_state three_failures = COLLECTING_INFO
   \<and> ai_available three_failures"
proof -
  have h: "3 \<le> ai_extraction_failures three_failures"
    by code_simp
  have l: "length (extraction_requests three_failures) = 3"
    "current_state three_failures = COLLECTING_INFO" "ai_available three_failures"
    by code_simp+
  show ?thesis
    using ai_tier_disabled_after_three_failures[OF h, of "[(''hi'', all_five)]"] h l by simp
qed

section \<open>C6: the follow-up offer\<close>

lemma str_contains_map:
  "str_contains sub s \<Longrightarrow> str_contains (map f sub) (map f s)"
proof (induction s)
  case Nil
  then show ?case by simp
next
  case (Cons c cs)
  have "take (length sub) (c # cs) = sub
        \<Longrightarrow> take (length (map f sub)) (map f (c # cs)) = map f sub"
    by (metis length_map take_map)
  then show ?case using Cons by auto
qed

lemma str_contains_lower_email:
  "str_contains ''email'' s \<Longrightarrow> str_contains ''email'' (str_lower s)"
proof -
  have "map char_lower ''email'' = ''email''"
    by (simp add: char_lower_def char_isupper_ascii_def code_point_def)
  then show "str_contains ''email'' s \<Longrightarrow> str_contains ''email'' (str_lower s)"
    using str_contains_map[of "''email''" s char_lower] by (simp add: str_lower_def)
qed

lemma get_email_address_history:
  "get_email_address (e\<lparr>conversation_history := h\<rparr>) = get_email_address e"
  "get_pharmacy_name (e\<lparr>conversation_history := h\<rparr>) = get_pharmacy_name e"
  by (simp_all add: get_email_address_def get_pharmacy_name_def info_get_def)

lemma get_email_address_truthy: "get_email_address e = Some a \<Longrightarrow> truthy a"
  by (auto simp: get_email_address_def split: if_splits option.splits)

text \<open>
  C6: in the state OFFERING_FOLLOW_UP, a message that contains ``email'' (the code
  tests the lower-cased message, which contains it whenever the message does) when an
  e-mail address is known, in CollectedInfo or in the caller record, appends exactly one
  record to the e-mail log, addressed to it, and sets the state to CLOSING; a message
  that contains none of ``email'', ``call'' and ``consultation'' leaves the state and
  both logs unchanged and repeats the offer.
\<close>

theorem follow_up_offer_email:
  assumes "current_state eng = OFFERING_FOLLOW_UP"
  shows "(str_contains ''email'' user_message
          \<longrightarrow> str_contains ''email'' (str_lower user_message))
       \<and> (str_contains ''email'' (str_lower user_message) \<and> get_email_address eng \<noteq> None
          \<longrightarrow> sent_emails (fst (process_message eng user_message env))
                = sent_emails eng
                  @ [\<lparr>email_id = length (sent_emails eng) + 1,
                      to_email = the (get_email_address eng),
                      email_pharmacy_name = get_pharmacy_name eng,
                      email_contact_person = info_get eng ''contact_person'' (JStr [])\<rparr>]
              \<and> current_state (fst (process_message eng user_message env)) = CLOSING)
       \<and> (\<not> str_contains ''email'' (str_lower user_message)
            \<and> \<not> str_contains ''call'' (str_lower user_message)
            \<and> \<not> str_contains ''consultation'' (str_lower user_message)
          \<longrightarrow> current_state (fst (process_message eng user_message env)) = OFFERING_FOLLOW_UP
              \<and> snd (process_message eng user_message env) = EMAIL_OR_CALL
              \<and> sent_emails (fst (process_message eng user_message env)) = sent_emails eng
              \<and> scheduled_callbacks (fst (process_message eng user_message env))
                = scheduled_callbacks eng)"
  using assms get_email_address_truthy[of eng]
  by (auto simp: process_message_def route_def handle_follow_up_offer_def Let_def
      get_email_address_history send_welcome_email_def send_email_def info_get_def
      str_contains_lower_email
      split: option.splits)

text \<open>C6 at the lead who was offered the follow-up and asks for the e-mail.\<close>

theorem follow_up_offer_email_witness:
  "current_state offered_follow_up = OFFERING_FOLLOW_UP
   \<and> str_contains ''email'' (str_lower ''Please send me information via email'')
   \<and> get_email_address offered_follow_up = Some (JStr ''john@testpharmacy.com'')
   \<and> sent_emails offered_follow_up = []
   \<and> sent_emails (fst (process_message offered_follow_up
                          ''Please send me information via email'' no_llm))
     = [\<lparr>email_id = 1, to_email = JStr ''john@testpharmacy.com'',
         email_pharmacy_name = JStr ''Test Pharmacy'',
         email_contact_person = JStr ''John Doe''\<rparr>]
   \<and> current_state (fst (process_message offered_follow_up
                            ''Please send me information via email'' no_llm)) = CLOSING"
proof -
  have s: "current_state offered_follow_up = OFFERING_FOLLOW_UP"
    by code_simp
  have c: "str_contains ''email'' (str_lower ''Please send me information via email'')"
    by code_simp
  have a: "get_email_address offered_follow_up = Some (JStr ''john@testpharmacy.com'')"
    "sent_emails offered_follow_up = []"
    "get_pharmacy_name offered_follow_up = JStr ''Test Pharmacy''"
    "info_get offered_follow_up ''contact_person'' (JStr []) = JStr ''John Doe''"
    by code_simp+
  show ?thesis
    using follow_up_offer_email[OF s, of "''Please send me information via email''" no_llm]
      s c a
    by simp
qed


section \<open>C7: falsy values in the manual tier\<close>

lemma falsy_field_incomplete:
  assumes "field \<in> set required_fields"
    and "collected_info e field = Some v" and "\<not> truthy v"
  shows "\<not> has_complete_info e"
proof -
  have "\<not> field_filled (collected_info e) field"
    using assms(2,3) by (simp add: field_filled_def)
  with assms(1) show ?thesis by (rule unfilled_incomplete)
qed

lemma manual_extract_empty:
  "field \<in> {''pharmacy_name'', ''location'', ''contact_person''}
   \<Longrightarrow> manual_extract field [] = Inr (Some (JStr []))"
  by (auto simp: manual_extract_def extract_pharmacy_name_def extract_location_def
      extract_contact_person_def str_split_def str_strip_def str_lower_def Let_def)

lemma manual_extract_zero:
  "digit_runs [] m = ''0'' # rest \<Longrightarrow> manual_extract ''rx_volume'' m = Inr (Some (JInt 0))"
  by (simp add: manual_extract_def extract_rx_volume_def int_of_digits_def
      int_max_str_digits_def digits_value_def code_point_def)

lemma manual_stores:
  assumes "current_info_field e < 5"
    and "manual_extract (info_collection_fields ! current_info_field e) m = Inr (Some v)"
  shows "current_info_field (fst (handle_manual_info_collection e m)) = current_info_field e + 1"
    and "collected_info (fst (handle_manual_info_collection e m))
           (info_collection_fields ! current_info_field e) = Some v"
  using assms
  by (auto simp: handle_manual_info_collection_def Let_def length_info_collection_fields)

text \<open>
  C7: in the manual tier, the empty message with the cursor on pharmacy_name, location
  or contact_person (positions 0, 1, 3) stores the empty string and advances the cursor;
  a message whose first digit run is ``0'', with the cursor on rx_volume, stores 0 and
  advances the cursor; CollectedInfo with such a value in a required field does not
  pass the completeness check; and with the cursor past the last field the manual tier
  sets the state to DISCUSSING_SOLUTIONS whatever CollectedInfo holds, also through
  \<^verbatim>\<open>process_message\<close> when the AI tier is off.
\<close>

theorem falsy_values_count_as_extracted:
  "(current_info_field eng \<in> {0, 1, 3}
    \<longrightarrow> current_info_field (fst (handle_manual_info_collection eng []))
          = current_info_field eng + 1
        \<and> collected_info (fst (handle_manual_info_collection eng []))
            (info_collection_fields ! current_info_field eng) = Some (JStr [])
        \<and> \<not> has_complete_info (fst (handle_manual_info_collection eng [])))
   \<and> (current_info_field eng = 2 \<and> digit_runs [] user_message = ''0'' # rest
      \<longrightarrow> current_info_field (fst (handle_manual_info_collection eng user_message)) = 3
          \<and> collected_info (fst (handle_manual_info_collection eng user_message))
              ''rx_volume'' = Some (JInt 0)
          \<and> \<not> has_complete_info (fst (handle_manual_info_collection eng user_message)))
   \<and> (field \<in> set required_fields
        \<and> (collected_info eng field = Some (JStr []) \<or> collected_info eng field = Some (JInt 0))
      \<longrightarrow> \<not> has_complete_info eng)
   \<and> (5 \<le> current_info_field eng
      \<longrightarrow> current_state (fst (handle_manual_info_collection eng user_message))
          = DISCUSSING_SOLUTIONS)
   \<and> (current_state eng = COLLECTING_INFO \<and> 5 \<le> current_info_field eng
        \<and> (\<not> ai_available eng \<or> 3 \<le> ai_extraction_failures eng)
      \<longrightarrow> current_state (fst (process_message eng user_message env)) = DISCUSSING_SOLUTIONS)"
proof (intro conjI impI)
  assume c: "current_info_field eng \<in> {0, 1, 3}"
  then have lt: "current_info_field eng < 5" by auto
  have f: "info_collection_fields ! current_info_field eng
           \<in> {''pharmacy_name'', ''location'', ''contact_person''}"
    using c by (auto simp: info_collection_fields_def)
  have x: "manual_extract (info_collection_fields ! current_info_field eng) []
           = Inr (Some (JStr []))"
    using f by (rule manual_extract_empty)
  show "current_info_field (fst (handle_manual_info_collection eng []))
        = current_info_field eng + 1"
    using manual_stores(1)[OF lt x] .
  show s: "collected_info (fst (handle_manual_info_collection eng []))
        (info_collection_fields ! current_info_field eng) = Some (JStr [])"
    using manual_stores(2)[OF lt x] .
  show "\<not> has_complete_info (fst (handle_manual_info_collection eng []))"
    using falsy_field_incomplete[OF info_collection_fields_required[OF lt] s] by simp
next
  assume a: "current_info_field eng = 2 \<and> digit_runs [] user_message = ''0'' # rest"
  then have lt: "current_info_field eng < 5" by simp
  have f: "info_collection_fields ! current_info_field eng = ''rx_volume''"
    using a by (simp add: info_collection_fields_def)
  have x: "manual_extract (info_collection_fields ! current_info_field eng) user_message
           = Inr (Some (JInt 0))"
    using a f manual_extract_zero by simp
  show "current_info_field (fst (handle_manual_info_collection eng user_message)) = 3"
    using manual_stores(1)[OF lt x] a by simp
  show s: "collected_info (fst (handle_manual_info_collection eng user_message))
        ''rx_volume'' = Some (JInt 0)"
    using manual_stores(2)[OF lt x] f by simp
  show "\<not> has_complete_info (fst (handle_manual_info_collection eng user_message))"
    using falsy_field_incomplete[OF _ s] by (simp add: required_fields_def)
next
  assume "field \<in> set required_fields
        \<and> (collected_info eng field = Some (JStr []) \<or> collected_info eng field = Some (JInt 0))"
  then show "\<not> has_complete_info eng"
    using falsy_field_incomplete[of field eng] by auto
next
  assume "5 \<le> current_info_field eng"
  then show "current_state (fst (handle_manual_info_collection eng user_message))
          = DISCUSSING_SOLUTIONS"
    by (simp add: manual_past_end)
next
  assume a: "current_state eng = COLLECTING_INFO \<and> 5 \<le> current_info_field eng
        \<and> (\<not> ai_available eng \<or> 3 \<le> ai_extraction_failures eng)"
  let ?e0 = "eng\<lparr>conversation_history := conversation_history eng @ [(User, Text user_message)]\<rparr>"
  have off: "\<not> ai_available ?e0 \<or> 3 \<le> ai_extraction_failures ?e0" using a by simp
  have past: "5 \<le> current_info_field ?e0" using a by simp
  have d: "current_state (fst (handle_manual_info_collection e user_message))
           = DISCUSSING_SOLUTIONS" if "5 \<le> current_info_field e" for e
    using that by (simp add: manual_past_end)
  obtain e1 res where m1: "handle_manual_info_collection ?e0 user_message = (e1, res)"
    by (cases "handle_manual_info_collection ?e0 user_message")
  have e1: "current_state e1 = DISCUSSING_SOLUTIONS" "5 \<le> current_info_field e1"
    using m1 manual_past_end[OF past, of user_message] past by auto
  have "current_state (fst (handle_info_collection ?e0 user_message env)) = DISCUSSING_SOLUTIONS"
    using m1 e1 d[of e1]
    by (cases res) (simp_all add: info_collection_manual_only[OF off])
  then show "current_state (fst (process_message eng user_message env)) = DISCUSSING_SOLUTIONS"
    using a by (auto simp: process_message_collecting split: prod.splits sum.splits)
qed

text \<open>C7 at a new lead's empty first message, at a volume answered ``about 0 so far'',
  and at an engine in COLLECTING_INFO with the cursor past the last field and
  CollectedInfo incomplete.\<close>

theorem falsy_values_count_as_extracted_witness:
  "current_info_field (new_lead False) \<in> {0, 1, 3}
   \<and> collected_info (fst (handle_manual_info_collection (new_lead False) []))
       ''pharmacy_name'' = Some (JStr [])
   \<and> current_info_field (fst (handle_manual_info_collection (new_lead False) [])) = 1
   \<and> \<not> has_complete_info (fst (handle_manual_info_collection (new_lead False) []))
   \<and> current_info_field two_fields_lead = 2
   \<and> digit_runs [] ''about 0 so far'' = [''0'']
   \<and> collected_info (fst (handle_manual_info_collection two_fields_lead ''about 0 so far''))
       ''rx_volume'' = Some (JInt 0)
   \<and> current_info_field (fst (handle_manual_info_collection two_fields_lead ''about 0 so far'')) = 3
   \<and> current_state cursor_past_end = COLLECTING_INFO
   \<and> 5 \<le> current_info_field cursor_past_end
   \<and> \<not> ai_available cursor_past_end
   \<and> \<not> has_complete_info cursor_past_end
   \<and> current_state (fst (process_message cursor_past_end ''hello'' no_llm))
     = DISCUSSING_SOLUTIONS
   \<and> \<not> has_complete_info (fst (process_message cursor_past_end ''hello'' no_llm))"
proof -
  have a: "current_info_field (new_lead False) \<in> {0, 1, 3}"
    "info_collection_fields ! current_info_field (new_lead False) = ''pharmacy_name''"
    "current_info_field (new_lead False) = 0"
    by code_simp+
  have b: "current_info_field two_fields_lead = 2"
    "digit_runs [] ''about 0 so far'' = [''0'']"
    by code_simp+
  have c: "current_state cursor_past_end = COLLECTING_INFO"
    "5 \<le> current_info_field cursor_past_end" "\<not> ai_available cursor_past_end"
    "\<not> has_complete_info cursor_past_end"
    "\<not> has_complete_info (fst (process_message cursor_past_end ''hello'' no_llm))"
    by code_simp+
  show ?thesis
    using falsy_values_count_as_extracted[of "new_lead False" "''hello''" "[]" "''email''" no_llm]
      falsy_values_count_as_extracted[of two_fields_lead "''about 0 so far''" "[]" "''email''" no_llm]
      falsy_values_count_as_extracted[of cursor_past_end "''hello''" "[]" "''email''" no_llm]
      a b c
    by simp
qed

section \<open>C8: the AI tier and the field cursor\<close>

lemma check_rx_volume_other_keys:
  "check_rx_volume d v = Inr (d', valid) \<Longrightarrow> k \<noteq> ''rx_volume'' \<Longrightarrow> map_of d' k = map_of d k"
  by (auto simp: check_rx_volume_def split: json.splits if_splits sum.splits)

lemma ai_tier_success_form:
  assumes "ai_tier e m env = (e', Inr (Some r))"
  shows "\<exists>d' v. collected_info e' = collected_info e ++ map_of d'
           \<and> map_of (parse_extraction (extraction env)) (get_next_missing_field e) = Some v
           \<and> truthy v
           \<and> (if get_next_missing_field e = ''rx_volume''
               then check_rx_volume (parse_extraction (extraction env)) v = Inr (d', True)
               else d' = parse_extraction (extraction env))"
  using assms
  by (auto simp add: ai_tier_def extract_pharmacy_info_for_field_def Let_def
      split: prod.splits sum.splits option.splits if_splits)

lemma ai_tier_success:
  assumes "snd (ai_tier e m env) = Inr (Some r)"
  shows "field_filled (collected_info (fst (ai_tier e m env))) (get_next_missing_field e)"
    and "k \<noteq> ''rx_volume''
         \<Longrightarrow> collected_info (fst (ai_tier e m env)) k
             = (collected_info e ++ map_of (parse_extraction (extraction env))) k"
proof -
  obtain e' where a: "ai_tier e m env = (e', Inr (Some r))"
    using assms by (cases "ai_tier e m env") auto
  from ai_tier_success_form[OF a] obtain d' v where
    i: "collected_info e' = collected_info e ++ map_of d'"
    and p: "map_of (parse_extraction (extraction env)) (get_next_missing_field e) = Some v"
    and t: "truthy v"
    and c: "if get_next_missing_field e = ''rx_volume''
            then check_rx_volume (parse_extraction (extraction env)) v = Inr (d', True)
            else d' = parse_extraction (extraction env)"
    by blast
  have "\<exists>w. map_of d' (get_next_missing_field e) = Some w \<and> truthy w"
  proof (cases "get_next_missing_field e = ''rx_volume''")
    case True
    then show ?thesis
      using c p t check_rx_volume_truthy[of "parse_extraction (extraction env)" v d'] by simp
  next
    case False
    then show ?thesis using c p t by simp
  qed
  then show "field_filled (collected_info (fst (ai_tier e m env))) (get_next_missing_field e)"
    using a i by (auto simp: field_filled_def map_add_def)
  show "collected_info (fst (ai_tier e m env)) k
        = (collected_info e ++ map_of (parse_extraction (extraction env))) k"
    if "k \<noteq> ''rx_volume''"
  proof -
    have "map_of d' k = map_of (parse_extraction (extraction env)) k"
      using c check_rx_volume_other_keys[OF _ that, of "parse_extraction (extraction env)" v d' True]
      by (cases "get_next_missing_field e = ''rx_volume''") simp_all
    then show ?thesis using a i by (simp add: map_add_def)
  qed
qed


text \<open>
  C8: the AI tier never changes \<^verbatim>\<open>current_info_field\<close>. When it returns a reply, the
  field it asked for is filled in CollectedInfo, every other key of the extraction but
  \<^verbatim>\<open>rx_volume\<close> is merged as returned, and \<^verbatim>\<open>process_message\<close> leaves the cursor where
  it was. So the cursor can point at a filled field, and the manual tier then overwrites
  it: after the AI tier has stored the name ``Main Street Drugs'' the cursor is still on
  pharmacy_name, and the next message, ``Orlando'', for which the extraction fails,
  replaces the name by ``Orlando'' and leaves the location empty.
\<close>

theorem ai_tier_leaves_cursor:
  "current_info_field (fst (ai_tier eng user_message env)) = current_info_field eng
   \<and> (\<forall>r. snd (ai_tier eng user_message env) = Inr (Some r)
        \<longrightarrow> field_filled (collected_info (fst (ai_tier eng user_message env)))
              (get_next_missing_field eng)
            \<and> (\<forall>k. k \<noteq> ''rx_volume''
                 \<longrightarrow> collected_info (fst (ai_tier eng user_message env)) k
                     = (collected_info eng ++ map_of (parse_extraction (extraction env))) k))
   \<and> (\<forall>r. current_state eng = COLLECTING_INFO
            \<and> snd (ai_tier (eng\<lparr>conversation_history :=
                                   conversation_history eng @ [(User, Text user_message)]\<rparr>)
                      user_message env) = Inr (Some r)
        \<longrightarrow> current_info_field (fst (process_message eng user_message env))
              = current_info_field eng
            \<and> snd (process_message eng user_message env) = r)
   \<and> collected_info name_by_ai ''pharmacy_name'' = Some (JStr ''Main Street Drugs'')
   \<and> current_state name_by_ai = COLLECTING_INFO
   \<and> current_info_field name_by_ai = 0
   \<and> info_collection_fields ! 0 = ''pharmacy_name''
   \<and> collected_info (fst (process_message name_by_ai ''Orlando'' no_llm)) ''pharmacy_name''
     = Some (JStr ''Orlando'')
   \<and> collected_info (fst (process_message name_by_ai ''Orlando'' no_llm)) ''location'' = None
   \<and> current_info_field (fst (process_message name_by_ai ''Orlando'' no_llm)) = 1"
proof -
  have pm: "current_info_field (fst (process_message eng user_message env))
              = current_info_field eng
            \<and> snd (process_message eng user_message env) = r"
    if st: "current_state eng = COLLECTING_INFO"
      and su: "snd (ai_tier (eng\<lparr>conversation_history :=
                                   conversation_history eng @ [(User, Text user_message)]\<rparr>)
                      user_message env) = Inr (Some r)" for r
  proof -
    let ?e0 = "eng\<lparr>conversation_history :=
                      conversation_history eng @ [(User, Text user_message)]\<rparr>"
    obtain e1 where a: "ai_tier ?e0 user_message env = (e1, Inr (Some r))"
      using su by (cases "ai_tier ?e0 user_message env") auto
    have "current_info_field e1 = current_info_field eng"
      using ai_tier_cursor[of ?e0 user_message env] a by simp
    then show ?thesis
      using a by (simp add: process_message_collecting[OF st] handle_info_collection_def)
  qed
  have scenario:
    "collected_info name_by_ai ''pharmacy_name'' = Some (JStr ''Main Street Drugs'')"
    "current_state name_by_ai = COLLECTING_INFO"
    "current_info_field name_by_ai = 0"
    "info_collection_fields ! 0 = ''pharmacy_name''"
    "collected_info (fst (process_message name_by_ai ''Orlando'' no_llm)) ''pharmacy_name''
     = Some (JStr ''Orlando'')"
    "collected_info (fst (process_message name_by_ai ''Orlando'' no_llm)) ''location'' = None"
    "current_info_field (fst (process_message name_by_ai ''Orlando'' no_llm)) = 1"
    by code_simp+
  show ?thesis
    using ai_tier_cursor[of eng user_message env] ai_tier_success[of eng user_message env]
      pm scenario
    by blast
qed

text \<open>C8 at the new lead's first message, for which the AI tier returns the name.\<close>

theorem ai_tier_leaves_cursor_witness:
  "snd (ai_tier (new_lead True) ''Main Street Drugs'' name_only)
     = Inr (Some (COLLECTING_INFO_QUESTION ''location''))
   \<and> get_next_missing_field (new_lead True) = ''pharmacy_name''
   \<and> current_info_field (new_lead True) = 0
   \<and> current_info_field (fst (ai_tier (new_lead True) ''Main Street Drugs'' name_only)) = 0
   \<and> field_filled (collected_info (fst (ai_tier (new_lead True) ''Main Street Drugs'' name_only)))
       ''pharmacy_name''"
proof -
  have a: "snd (ai_tier (new_lead True) ''Main Street Drugs'' name_only)
     = Inr (Some (COLLECTING_INFO_QUESTION ''location''))"
    "get_next_missing_field (new_lead True) = ''pharmacy_name''"
    "current_info_field (new_lead True) = 0"
    by code_simp+
  show ?thesis
    using ai_tier_leaves_cursor[of "new_lead True" "''Main Street Drugs''" name_only] a
    by simp
qed



section \<open>C9: what \<^verbatim>\<open>process_message\<close> returns\<close>

text \<open>
  C9: no exception leaves \<^verbatim>\<open>process_message\<close>, but it does not always return a
  string. A caller the directory knows is in DISCUSSING_SOLUTIONS; the message has none
  of the interest keywords, so the reply is the language model's, and when the answer's
  \<^verbatim>\<open>message.content\<close> is \<^verbatim>\<open>None\<close>, \<^verbatim>\<open>_generate_ai_response\<close> returns it unchecked:
  \<^verbatim>\<open>process_message\<close> returns \<^verbatim>\<open>None\<close>, appended to the transcript as the assistant's
  turn.
\<close>

theorem process_message_returns_none:
  "current_state known_customer = DISCUSSING_SOLUTIONS
   \<and> ai_available known_customer
   \<and> snd (process_message known_customer ''what does it cost'' no_content) = PyNone
   \<and> \<not> is_str (snd (process_message known_customer ''what does it cost'' no_content))
   \<and> last (conversation_history
             (fst (process_message known_customer ''what does it cost'' no_content)))
       = (Assistant, PyNone)"
  by code_simp

end
